theory Spec2Isabelle
  imports Complex_Main
begin

section \<open>Machine integers of the Go source\<close>

text \<open>
  The engine computes on \<open>int64\<close> and on \<open>int\<close>, which is 64 bits wide on the
  platforms the engine is built for.  Values are modelled as \<open>int\<close> and every
  arithmetic result is wrapped to the two's complement range, as Go does.
  Go's \<open>/\<close> truncates towards zero and panics on a zero divisor.
\<close>

definition wrap64 :: "int \<Rightarrow> int" where
  "wrap64 x = signed_take_bit 63 x"

definition go_quot :: "int \<Rightarrow> int \<Rightarrow> int" where
  "go_quot a b = wrap64 (sgn a * sgn b * (\<bar>a\<bar> div \<bar>b\<bar>))"

datatype go_panic = MakeSliceLenOutOfRange | IntegerDivideByZero | IndexOutOfRange

section \<open>Chunk planner\<close>

subsection \<open>\<open>DivideChunks\<close> (CancelDownload.go)\<close>

text \<open>
  \<open>make([]int64, chunkCount)\<close> panics on a negative length, the division panics on a
  zero count.  The loop assigns the slots of the zero-filled slice one index at a time.
  Memory is not modelled: \<open>make\<close> succeeds for every non-negative length.
\<close>

definition DivideChunks_body :: "int \<Rightarrow> int \<Rightarrow> int \<Rightarrow> int list \<Rightarrow> nat \<Rightarrow> int list" where
  "DivideChunks_body chunkCount chunkSize underFlowSize chunks i =
     (if int i = chunkCount - 2
      then chunks[i := wrap64 (chunkSize + underFlowSize)]
      else chunks[i := chunkSize])"

definition DivideChunks :: "int \<Rightarrow> int \<Rightarrow> go_panic + int list" where
  "DivideChunks fileSize chunkCount =
     (if chunkCount < 0 then Inl MakeSliceLenOutOfRange
      else if chunkCount = 0 then Inl IntegerDivideByZero
      else
        let chunks = replicate (nat chunkCount) (0::int);
            chunkSize = go_quot fileSize chunkCount;
            totalAllocatedSize = wrap64 (chunkCount * chunkSize);
            underFlowSize = wrap64 (fileSize - totalAllocatedSize)
        in Inr (foldl (DivideChunks_body chunkCount chunkSize underFlowSize) chunks
                  [0 ..< nat chunkCount]))"

subsection \<open>\<open>initializeChunks\<close> (multi-stream downloader)\<close>

record ChunkData =
  Index :: int
  Start :: int
  End :: int
  Size :: int
  IsCompleted :: bool

record ChunkManager =
  CM_Chunks :: "ChunkData list"
  CM_ChunkSize :: int
  CM_TotalSize :: int
  CM_CompletedBytes :: int

text \<open>The \<open>range\<close> loop, carrying the index and \<open>currentOffset\<close>.\<close>

fun initializeChunks_loop :: "nat \<Rightarrow> int \<Rightarrow> int list \<Rightarrow> ChunkData list" where
  "initializeChunks_loop i currentOffset [] = []"
| "initializeChunks_loop i currentOffset (sz # rest) =
     \<lparr>Index = int i, Start = currentOffset,
      End = wrap64 (wrap64 (currentOffset + sz) - 1),
      Size = sz, IsCompleted = False\<rparr>
     # initializeChunks_loop (Suc i) (wrap64 (currentOffset + sz)) rest"

text \<open>
  \<open>chunkSizes[0]\<close> panics on an empty slice; otherwise the function returns a nil
  error, the chunk list and the chunk manager.
\<close>

definition initializeChunks :: "int \<Rightarrow> int list \<Rightarrow> go_panic + (ChunkData list \<times> ChunkManager)" where
  "initializeChunks filesize chunkSizes =
     (let chunks = initializeChunks_loop 0 0 chunkSizes
      in case chunkSizes of
           [] \<Rightarrow> Inl IndexOutOfRange
         | first # _ \<Rightarrow>
             Inr (chunks, \<lparr>CM_Chunks = chunks, CM_ChunkSize = first,
                           CM_TotalSize = filesize, CM_CompletedBytes = 0\<rparr>))"

text \<open>The planner as \<open>executeMultiStreamDownload\<close> runs it.\<close>

definition planChunks :: "int \<Rightarrow> int \<Rightarrow> go_panic + ChunkData list" where
  "planChunks fileSize threadCount =
     (case DivideChunks fileSize threadCount of
        Inl p \<Rightarrow> Inl p
      | Inr chunkSizes \<Rightarrow>
          (case initializeChunks fileSize chunkSizes of
             Inl p \<Rightarrow> Inl p
           | Inr (chunks, _) \<Rightarrow> Inr chunks))"

text \<open>
  Closed form of the sizes that \<open>DivideChunks\<close> returns on in-range inputs
  (lemma \<open>DivideChunks_planned\<close> below proves the loop computes it).
\<close>

definition plannedSizes :: "int \<Rightarrow> int \<Rightarrow> int list" where
  "plannedSizes N k = map (\<lambda>i. if int i = k - 2 then N div k + N mod k else N div k) [0 ..< nat k]"



section \<open>Errors and data of the downloader\<close>

text \<open>
  Go errors are values.  \<open>ErrorText text\<close> stands for \<open>fmt.Errorf("text")\<close>,
  \<open>Errorf text e\<close> for \<open>fmt.Errorf("text: %v", e)\<close>,
  \<open>ChunkErrorf i text e\<close> for \<open>fmt.Errorf("chunk %d text: %v", i, e)\<close>.
\<close>

datatype go_error =
    ContextCanceled
  | NetError string
  | IOError string
  | ErrorText string
  | ErrNotExist
  | ErrPermission
  | UnexpectedStatus int
  | Errorf string go_error
  | ChunkErrorf nat string go_error
  | CleanupError "(nat \<times> string) list"
  | FailedAfterAttempts int "go_error option"

record UserPreferences =
  DownloadDir :: string
  fileName :: string
  threadCount :: int
  maxRetries :: int

record ServerData =
  Filename :: string
  Filesize :: int
  Filetype :: string
  AcceptsRanges :: bool
  FinalURL :: string

abbreviation (input) DOWNLOAD_QUEUED :: string where "DOWNLOAD_QUEUED \<equiv> ''queued''"
abbreviation (input) DOWNLOAD_IN_PROGRESS :: string where "DOWNLOAD_IN_PROGRESS \<equiv> ''in_progress''"
abbreviation (input) DOWNLOAD_PAUSED :: string where "DOWNLOAD_PAUSED \<equiv> ''paused''"
abbreviation (input) DOWNLOAD_COMPLETED :: string where "DOWNLOAD_COMPLETED \<equiv> ''completed''"
abbreviation (input) DOWNLOAD_FAILED :: string where "DOWNLOAD_FAILED \<equiv> ''failed''"
abbreviation (input) DOWNLOAD_STOPPED :: string where "DOWNLOAD_STOPPED \<equiv> ''stopped''"

text \<open>
  The fields of \<open>Downloader\<close> that the modelled functions read or write.
  \<open>isPaused\<close> is \<open>PauseControl.isPaused\<close>, \<open>FullPath\<close> is \<open>fileInfo.FullPath\<close>.  Callbacks are optional observers and
  are left out: they change neither files nor status.
\<close>

record Downloader =
  Url :: string
  Prefs :: UserPreferences
  ServerHeaders :: ServerData
  Chunks :: "ChunkData list"
  FullPath :: string
  isPaused :: bool
  Status :: string
  Error :: "go_error option"

definition getThreadCount :: "Downloader \<Rightarrow> int" where
  "getThreadCount d = threadCount (Prefs d)"

definition getRetryCount :: "Downloader \<Rightarrow> int" where
  "getRetryCount d = maxRetries (Prefs d)"

section \<open>Strategy selection (StartDownload.go)\<close>

definition minSizeForMultiStream :: int where
  "minSizeForMultiStream = 10 * 1024 * 1024"

definition shouldUseMultiStream :: "Downloader \<Rightarrow> bool" where
  "shouldUseMultiStream d =
     (if \<not> AcceptsRanges (ServerHeaders d) then False
      else if Filesize (ServerHeaders d) \<le> 0 then False
      else if Filesize (ServerHeaders d) < minSizeForMultiStream then False
      else if getThreadCount d = 1 then False
      else True)"

datatype strategy = MultiStream | SingleStream

text \<open>
  \<open>executeDownloadStrategy\<close> calls \<open>DownloadMultiStream\<close> or
  \<open>DownloadSingleStream\<close>; the model returns which of the two it calls.
\<close>

definition executeDownloadStrategy :: "Downloader \<Rightarrow> strategy" where
  "executeDownloadStrategy d =
     (if AcceptsRanges (ServerHeaders d) \<and> shouldUseMultiStream d
      then MultiStream else SingleStream)"

text \<open>The worker count the multi-stream path then runs with.\<close>

definition getOptimalThreadCount :: "Downloader \<Rightarrow> int" where
  "getOptimalThreadCount d =
     (let userThreadCount = getThreadCount d in
      if userThreadCount > 0 then userThreadCount
      else
        let fileSize = Filesize (ServerHeaders d) in
        if fileSize < 10 * 1024 * 1024 then 2
        else if fileSize < 100 * 1024 * 1024 then 4
        else if fileSize < 1024 * 1024 * 1024 then 8
        else 12)"

section \<open>Probe (\<open>GetServerData\<close>, \<open>tryGetServerData\<close>)\<close>

text \<open>
  What the network does with one HEAD request: \<open>http.NewRequest\<close> rejects the URL,
  \<open>client.Do\<close> fails with a transport error, or a response arrives (after any
  redirects).  \<open>Header\<close> maps a canonical header name to its values.
\<close>

record http_response =
  StatusCode :: int
  Header :: "string \<rightharpoonup> string list"
  RequestURL :: string
  RequestMethod :: string

datatype head_attempt =
    NewRequestError go_error
  | DoError go_error
  | DoResponse http_response

text \<open>
  Functions of Go's standard library that the probe calls, taken as parameters:
  \<open>mime.ParseMediaType\<close> (its parameter map, \<open>None\<close> on error),
  \<open>url.QueryUnescape\<close>, the \<open>Path\<close> of \<open>url.Parse\<close>, \<open>path.Base\<close>, and the
  integer that \<open>fmt.Sscanf(cl, "%d", &size)\<close> leaves in \<open>size\<close>.
\<close>

record stdlib =
  ParseMediaType :: "string \<Rightarrow> (string \<rightharpoonup> string) option"
  QueryUnescape :: "string \<Rightarrow> string option"
  url_Parse_Path :: "string \<Rightarrow> string option"
  path_Base :: "string \<Rightarrow> string"
  Sscanf_d :: "string \<Rightarrow> int"

definition Header_Get :: "(string \<rightharpoonup> string list) \<Rightarrow> string \<Rightarrow> string" where
  "Header_Get h key = (case h key of None \<Rightarrow> [] | Some [] \<Rightarrow> [] | Some (v # _) \<Rightarrow> v)"

definition strings_HasPrefix :: "string \<Rightarrow> string \<Rightarrow> bool" where
  "strings_HasPrefix s pre = (take (length pre) s = pre)"

definition strings_TrimPrefix :: "string \<Rightarrow> string \<Rightarrow> string" where
  "strings_TrimPrefix s pre = (if strings_HasPrefix s pre then drop (length pre) s else s)"

text \<open>\<open>strings.Contains\<close>: a byte-wise, case-sensitive substring test.\<close>

fun strings_Contains :: "string \<Rightarrow> string \<Rightarrow> bool" where
  "strings_Contains [] substr = (substr = [])"
| "strings_Contains (c # s) substr =
     (strings_HasPrefix (c # s) substr \<or> strings_Contains s substr)"

definition mimeExtensionFromContentType :: "string \<Rightarrow> string" where
  "mimeExtensionFromContentType ct =
     (case map_of [(''image/jpeg'', ''.jpg''), (''image/png'', ''.png''),
                   (''image/gif'', ''.gif''), (''text/html'', ''.html''),
                   (''application/pdf'', ''.pdf'')] ct of
        Some ext \<Rightarrow> ext
      | None \<Rightarrow> [])"

definition utf8_prefix :: string where
  "utf8_prefix = ''UTF-8'' @ [CHR 0x27, CHR 0x27]"

definition filenameFromContentDisposition :: "stdlib \<Rightarrow> string \<Rightarrow> ServerData \<Rightarrow> ServerData" where
  "filenameFromContentDisposition lib cd data =
     (if cd \<noteq> [] then
        (case ParseMediaType lib cd of
           None \<Rightarrow> data
         | Some params \<Rightarrow>
             (case params ''filename'' of
                Some name \<Rightarrow> data\<lparr>Filename := name\<rparr>
              | None \<Rightarrow>
                  (case params ''filename*'' of
                     None \<Rightarrow> data
                   | Some name \<Rightarrow>
                       if strings_HasPrefix name utf8_prefix then
                         (case QueryUnescape lib (strings_TrimPrefix name utf8_prefix) of
                            Some decoded \<Rightarrow> data\<lparr>Filename := decoded\<rparr>
                          | None \<Rightarrow> data)
                       else data)))
      else data)"

definition filenameFromURL :: "stdlib \<Rightarrow> string \<Rightarrow> ServerData \<Rightarrow> ServerData" where
  "filenameFromURL lib finalURL data =
     (if Filename data = [] then
        (case url_Parse_Path lib finalURL of
           None \<Rightarrow> data
         | Some p \<Rightarrow>
             let base = path_Base lib p in
             if base \<noteq> [] \<and> strings_Contains base ''.'' then data\<lparr>Filename := base\<rparr>
             else data)
      else data)"

text \<open>
  \<open>tryGetServerData\<close> returns the pair \<open>(*ServerData, error)\<close>; \<open>None\<close> is \<open>nil\<close>.
  Steps 3 and 4 of the source are the two helper functions above.
\<close>

definition tryGetServerData ::
  "stdlib \<Rightarrow> string \<Rightarrow> head_attempt \<Rightarrow> ServerData option \<times> go_error option" where
  "tryGetServerData lib downloadURL attempt =
     (case attempt of
        NewRequestError err \<Rightarrow> (None, Some err)
      | DoError err \<Rightarrow> (None, Some err)
      | DoResponse resp \<Rightarrow>
          if StatusCode resp \<ge> 400 then (None, None)
          else
            let finalURL = RequestURL resp;
                data = \<lparr>Filename = [], Filesize = 0, Filetype = [],
                        AcceptsRanges = False, FinalURL = finalURL\<rparr>;
                data = filenameFromContentDisposition lib
                         (Header_Get (Header resp) ''Content-Disposition'') data;
                data = filenameFromURL lib finalURL data;
                cl = Header_Get (Header resp) ''Content-Length'';
                data = (if cl \<noteq> [] then data\<lparr>Filesize := Sscanf_d lib cl\<rparr> else data);
                data = data\<lparr>Filetype := Header_Get (Header resp) ''Content-Type''\<rparr>;
                data = (if strings_Contains (Header_Get (Header resp) ''Accept-Ranges'') ''bytes''
                        then data\<lparr>AcceptsRanges := True\<rparr> else data);
                data = (if Filename data = []
                        then data\<lparr>Filename := ''downloaded_file''
                                      @ mimeExtensionFromContentType (Filetype data)\<rparr>
                        else data)
            in (Some data, None))"

text \<open>
  \<open>GetServerData\<close>: up to \<open>maxRetries = 3\<close> attempts; \<open>net n\<close> is what the network does
  with the HEAD request of attempt \<open>n\<close>.  The two-second sleep between attempts is not
  modelled.
\<close>

definition probe_maxRetries :: nat where
  "probe_maxRetries = 3"

function GetServerData_loop ::
  "stdlib \<Rightarrow> string \<Rightarrow> (nat \<Rightarrow> head_attempt) \<Rightarrow> nat \<Rightarrow> go_error option
     \<Rightarrow> ServerData option \<times> go_error option" where
  "GetServerData_loop lib downloadURL net attempt lastErr =
     (if attempt \<le> probe_maxRetries then
        (case tryGetServerData lib downloadURL (net attempt) of
           (data, None) \<Rightarrow> (data, None)
         | (data, Some err) \<Rightarrow>
             GetServerData_loop lib downloadURL net (attempt + 1) (Some err))
      else (None, Some (FailedAfterAttempts (int probe_maxRetries) lastErr)))"
  by pat_completeness auto
termination
  by (relation "measure (\<lambda>(lib, url, net, attempt, lastErr). Suc probe_maxRetries - attempt)") auto

definition GetServerData ::
  "stdlib \<Rightarrow> string \<Rightarrow> (nat \<Rightarrow> head_attempt) \<Rightarrow> ServerData option \<times> go_error option" where
  "GetServerData lib downloadURL net = GetServerData_loop lib downloadURL net 1 None"

text \<open>
  The accepts-ranges rule in the words of the specification: the header value contains
  \<open>bytes\<close> when letter case is ignored.
\<close>

definition ascii_lower :: "char \<Rightarrow> char" where
  "ascii_lower c =
     (case map_of (zip ''ABCDEFGHIJKLMNOPQRSTUVWXYZ'' ''abcdefghijklmnopqrstuvwxyz'') c of
        Some l \<Rightarrow> l
      | None \<Rightarrow> c)"

definition spec_accepts_ranges :: "string \<Rightarrow> bool" where
  "spec_accepts_ranges v = strings_Contains (map ascii_lower v) ''bytes''"

section \<open>Progress tracking\<close>

text \<open>
  A \<open>time.Time\<close> is the number of nanoseconds since Go's zero time, so \<open>IsZero\<close> is
  \<open>= 0\<close>; a \<open>time.Duration\<close> is a number of nanoseconds.  \<open>time.Now()\<close> is an input.
  \<open>float64\<close> values are modelled as exact reals: rounding is not modelled.
\<close>

record ProgressTracker =
  BytesCompleted :: int
  TotalBytes :: int
  LastReported :: int
  LastCheckTime :: int
  SpeedBps :: real
  Percentage :: real
  ETA :: int
  BytesPerSecond :: int
  StartTime :: int

definition time_Second :: int where
  "time_Second = 1000000000"

definition Seconds :: "int \<Rightarrow> real" where
  "Seconds dur = real_of_int dur / 1000000000"

text \<open>Conversion of a float to an integer truncates towards zero.\<close>

definition float_to_int64 :: "real \<Rightarrow> int" where
  "float_to_int64 x = (if 0 \<le> x then \<lfloor>x\<rfloor> else \<lceil>x\<rceil>)"

text \<open>
  \<open>Downloader.updateProgress\<close> (single-stream downloader), called after every read
  with the number of bytes of that read.  Returns the tracker and
  \<open>shouldCallCallback\<close>.
\<close>

definition updateProgress :: "int \<Rightarrow> ProgressTracker \<Rightarrow> int \<Rightarrow> int \<Rightarrow> ProgressTracker \<times> bool" where
  "updateProgress now pt bytesRead totalSize =
     (let pt = pt\<lparr>BytesCompleted := wrap64 (BytesCompleted pt + bytesRead)\<rparr> in
      if now - LastReported pt \<ge> time_Second then
        let elapsed = Seconds (now - LastReported pt) in
        (pt\<lparr>SpeedBps := real_of_int bytesRead / elapsed, LastReported := now\<rparr>, True)
      else (pt, False))"

text \<open>\<open>ProgressTracker.UpdateProgress\<close> (DownloaderModels.go).\<close>

definition UpdateProgress :: "int \<Rightarrow> ProgressTracker \<Rightarrow> int \<Rightarrow> int \<Rightarrow> ProgressTracker" where
  "UpdateProgress now pt bytesRead totalSize =
     (let pt = (if StartTime pt = 0 then pt\<lparr>StartTime := now\<rparr> else pt);
          pt = pt\<lparr>BytesCompleted := wrap64 (BytesCompleted pt + bytesRead),
                  TotalBytes := totalSize, LastCheckTime := now\<rparr>;
          pt = (if totalSize > 0 then
                  let pct = real_of_int (BytesCompleted pt) / real_of_int totalSize * 100
                  in pt\<lparr>Percentage := (if pct > 100 then 100 else pct)\<rparr>
                else pt);
          pt = (if LastReported pt \<noteq> 0 then
                  let elapsed = Seconds (now - LastReported pt) in
                  if elapsed > 0 then pt\<lparr>SpeedBps := real_of_int bytesRead / elapsed\<rparr> else pt
                else pt);
          totalElapsed = Seconds (now - StartTime pt);
          pt = (if totalElapsed > 0 then
                  pt\<lparr>BytesPerSecond := float_to_int64 (real_of_int (BytesCompleted pt) / totalElapsed)\<rparr>
                else pt);
          pt = (if SpeedBps pt > 0 \<and> totalSize > 0 \<and> BytesCompleted pt < totalSize then
                  let remainingBytes = wrap64 (totalSize - BytesCompleted pt);
                      etaSeconds = real_of_int remainingBytes / SpeedBps pt
                  in pt\<lparr>ETA := wrap64 (float_to_int64 etaSeconds * time_Second)\<rparr>
                else pt)
      in pt\<lparr>LastReported := now\<rparr>)"

text \<open>
  One speed sample of \<open>monitorMultiStreamProgress\<close>: on a tick with at least a second
  since the last report it reads the shared byte counter and reports the difference.
  The loop's locals are \<open>lastReported\<close> and \<open>lastReportTime\<close>.
\<close>

definition monitorTick ::
  "int \<Rightarrow> int \<Rightarrow> int \<Rightarrow> int \<Rightarrow> int \<Rightarrow> ProgressTracker \<Rightarrow> ProgressTracker \<times> int \<times> int" where
  "monitorTick now current filesize lastReported lastReportTime pt =
     (let elapsed = Seconds (now - lastReportTime) in
      if elapsed \<ge> 1 then
        let bytesDiff = wrap64 (current - lastReported);
            speed = real_of_int bytesDiff / elapsed;
            pt = pt\<lparr>BytesCompleted := current, SpeedBps := speed, LastReported := now\<rparr>;
            pt = (if filesize > 0
                  then pt\<lparr>Percentage := real_of_int current / real_of_int filesize * 100\<rparr>
                  else pt)
        in (pt, current, now)
      else (pt, lastReported, lastReportTime))"

section \<open>Pause, resume and cancel (PauseDownloader.go)\<close>

definition Pause :: "Downloader \<Rightarrow> Downloader" where
  "Pause d = (if \<not> isPaused d then d\<lparr>isPaused := True, Status := DOWNLOAD_PAUSED\<rparr> else d)"

definition Resume :: "Downloader \<Rightarrow> Downloader" where
  "Resume d = (if isPaused d then d\<lparr>isPaused := False, Status := DOWNLOAD_IN_PROGRESS\<rparr> else d)"

text \<open>
  \<open>Cancel\<close> clears the pause flag, sets the status and wakes the waiters.  The
  \<open>Downloader\<close> holds no reference to the download's context or to its cancel
  function, so \<open>Cancel\<close> cannot reach them.
\<close>

definition Cancel :: "Downloader \<Rightarrow> Downloader" where
  "Cancel d = d\<lparr>isPaused := False, Status := DOWNLOAD_STOPPED\<rparr>"

definition handleDownloadError :: "Downloader \<Rightarrow> go_error \<Rightarrow> Downloader" where
  "handleDownloadError d err = d\<lparr>Status := DOWNLOAD_FAILED, Error := Some err\<rparr>"

definition finalizeDownload :: "Downloader \<Rightarrow> Downloader" where
  "finalizeDownload d = d\<lparr>Status := DOWNLOAD_COMPLETED\<rparr>"

section \<open>File system and chunk files (package ufs)\<close>

text \<open>
  \<open>files\<close> gives the size of every existing file.  \<open>denied\<close> holds for the paths on
  which creating (the file or, in \<open>CreateFile\<close>, its parent directory) and opening
  fail with a permission error.  \<open>undeletable\<close> holds for the paths on which
  \<open>os.Remove\<close> fails although the file exists; removal depends on the directory, so
  a file that could be created or written need not be removable.
\<close>

record filesystem =
  files :: "string \<rightharpoonup> int"
  denied :: "string \<Rightarrow> bool"
  undeletable :: "string \<Rightarrow> bool"

definition os_Remove :: "filesystem \<Rightarrow> string \<Rightarrow> filesystem \<times> go_error option" where
  "os_Remove fs name =
     (if files fs name = None then (fs, Some ErrNotExist)
      else if undeletable fs name then (fs, Some ErrPermission)
      else (fs\<lparr>files := (files fs)(name := None)\<rparr>, None))"

definition os_IsNotExist :: "go_error \<Rightarrow> bool" where
  "os_IsNotExist err = (err = ErrNotExist)"

text \<open>\<open>os.Create\<close> truncates an existing file.\<close>

definition os_Create :: "filesystem \<Rightarrow> string \<Rightarrow> filesystem \<times> go_error option" where
  "os_Create fs name =
     (if denied fs name then (fs, Some ErrPermission)
      else (fs\<lparr>files := (files fs)(name \<mapsto> 0)\<rparr>, None))"

text \<open>Opening an existing file, for reading or for writing.\<close>

definition os_Open :: "filesystem \<Rightarrow> string \<Rightarrow> go_error option" where
  "os_Open fs name =
     (if files fs name = None then Some ErrNotExist
      else if denied fs name then Some ErrPermission
      else None)"

definition FileExists :: "filesystem \<Rightarrow> string \<Rightarrow> bool" where
  "FileExists fs pathStr = (files fs pathStr \<noteq> None)"

definition CreateFile :: "filesystem \<Rightarrow> string \<Rightarrow> filesystem \<times> go_error option" where
  "CreateFile fs pathStr =
     (case os_Create fs pathStr of
        (fs', Some err) \<Rightarrow> (fs', Some (Errorf ''failed to create file'' err))
      | (fs', None) \<Rightarrow> (fs', None))"

fun GenerateChunkFiles_loop :: "filesystem \<Rightarrow> nat \<Rightarrow> string list \<Rightarrow> filesystem \<times> go_error option" where
  "GenerateChunkFiles_loop fs i [] = (fs, None)"
| "GenerateChunkFiles_loop fs i (chunkFileName # rest) =
     (case CreateFile fs chunkFileName of
        (fs', Some err) \<Rightarrow> (fs', Some (ChunkErrorf i ''failed to create chunk file'' err))
      | (fs', None) \<Rightarrow> GenerateChunkFiles_loop fs' (Suc i) rest)"

definition GenerateChunkFiles :: "filesystem \<Rightarrow> string list \<Rightarrow> filesystem \<times> go_error option" where
  "GenerateChunkFiles fs chunkFileNames = GenerateChunkFiles_loop fs 0 chunkFileNames"

text \<open>
  \<open>CleanupChunkFiles\<close> removes every chunk file and collects the removals that failed
  for a reason other than the file being absent.
\<close>

fun CleanupChunkFiles_loop ::
  "filesystem \<Rightarrow> nat \<Rightarrow> string list \<Rightarrow> (nat \<times> string) list \<Rightarrow> filesystem \<times> (nat \<times> string) list" where
  "CleanupChunkFiles_loop fs i [] errors = (fs, errors)"
| "CleanupChunkFiles_loop fs i (chunkFileName # rest) errors =
     (case os_Remove fs chunkFileName of
        (fs', Some err) \<Rightarrow>
          if \<not> os_IsNotExist err
          then CleanupChunkFiles_loop fs' (Suc i) rest (errors @ [(i, chunkFileName)])
          else CleanupChunkFiles_loop fs' (Suc i) rest errors
      | (fs', None) \<Rightarrow> CleanupChunkFiles_loop fs' (Suc i) rest errors)"

definition CleanupChunkFiles :: "filesystem \<Rightarrow> string list \<Rightarrow> filesystem \<times> go_error option" where
  "CleanupChunkFiles fs chunkFileNames =
     (case CleanupChunkFiles_loop fs 0 chunkFileNames [] of
        (fs', errors) \<Rightarrow>
          if length errors > 0 then (fs', Some (CleanupError errors)) else (fs', None))"

text \<open>
  \<open>MergeChunkFiles\<close>: the output file is created empty, every chunk is appended in
  order and then removed; a failed removal is only logged.
\<close>

fun MergeChunkFiles_loop ::
  "filesystem \<Rightarrow> string \<Rightarrow> nat \<Rightarrow> string list \<Rightarrow> filesystem \<times> go_error option" where
  "MergeChunkFiles_loop fs outputFilePath i [] = (fs, None)"
| "MergeChunkFiles_loop fs outputFilePath i (chunkFileName # rest) =
     (case os_Open fs chunkFileName of
        Some err \<Rightarrow> (fs, Some (ChunkErrorf i ''failed to open chunk file'' err))
      | None \<Rightarrow>
          let copied = the (files fs chunkFileName);
              out = (case files fs outputFilePath of Some n \<Rightarrow> n | None \<Rightarrow> 0);
              fs = fs\<lparr>files := (files fs)(outputFilePath \<mapsto> out + copied)\<rparr>;
              fs = fst (os_Remove fs chunkFileName)
          in MergeChunkFiles_loop fs outputFilePath (Suc i) rest)"

definition MergeChunkFiles :: "filesystem \<Rightarrow> string list \<Rightarrow> string \<Rightarrow> filesystem \<times> go_error option" where
  "MergeChunkFiles fs chunkFileNames outputFilePath =
     (case CreateFile fs outputFilePath of
        (fs', Some err) \<Rightarrow> (fs', Some (Errorf ''failed to create output file'' err))
      | (fs', None) \<Rightarrow> MergeChunkFiles_loop fs' outputFilePath 0 chunkFileNames)"

section \<open>Chunk worker (multi-stream downloader)\<close>

text \<open>
  One iteration of the read loop gets from the response body a number of bytes and
  an error (none, \<open>io.EOF\<close>, or a transport error), and the write of those bytes may
  fail.  A body whose events are used up returns \<open>(0, io.EOF)\<close>.
\<close>

datatype read_err = NoErr | EOF | ReadFail string

datatype io_event = ReadEv int read_err "string option"

text \<open>
  What the origin does with a chunk's range request: the request cannot be built,
  the transport fails, or a response with a status and a body arrives.
\<close>

datatype http_attempt =
    NewRequestFails string
  | DoFails string
  | Responds int "io_event list"

text \<open>
  \<open>downloadChunkWithProgress\<close>.  \<open>ctxDone\<close> tells whether the context is cancelled and
  \<open>paused\<close> is the pause flag; both are fixed while the loop runs.  With the flag set
  \<open>checkPauseState\<close> waits until another goroutine clears it: the loop then does not
  return (\<open>LoopBlocked\<close>).  The result carries the bytes written so far, which
  are also the bytes appended to the chunk file and added to the shared counter.
\<close>

datatype loop_result = LoopReturn int "go_error option" | LoopBlocked int

fun downloadChunkWithProgress ::
  "bool \<Rightarrow> bool \<Rightarrow> io_event list \<Rightarrow> int \<Rightarrow> int \<Rightarrow> loop_result" where
  "downloadChunkWithProgress ctxDone paused [] expectedBytes totalWritten =
     (if totalWritten < expectedBytes then
        if paused then LoopBlocked totalWritten
        else if ctxDone then LoopReturn totalWritten (Some ContextCanceled)
        else LoopReturn totalWritten None
      else LoopReturn totalWritten None)"
| "downloadChunkWithProgress ctxDone paused (ReadEv n rerr werr # rest) expectedBytes totalWritten =
     (if totalWritten < expectedBytes then
        if paused then LoopBlocked totalWritten
        else if ctxDone then LoopReturn totalWritten (Some ContextCanceled)
        else if n > 0 then
          (case werr of
             Some m \<Rightarrow>
               LoopReturn totalWritten (Some (Errorf ''failed to write chunk data'' (IOError m)))
           | None \<Rightarrow>
               (case rerr of
                  EOF \<Rightarrow> LoopReturn (totalWritten + n) None
                | ReadFail m \<Rightarrow>
                    LoopReturn (totalWritten + n)
                      (Some (Errorf ''failed to read chunk data'' (NetError m)))
                | NoErr \<Rightarrow>
                    downloadChunkWithProgress ctxDone paused rest expectedBytes (totalWritten + n)))
        else
          (case rerr of
             EOF \<Rightarrow> LoopReturn totalWritten None
           | ReadFail m \<Rightarrow>
               LoopReturn totalWritten (Some (Errorf ''failed to read chunk data'' (NetError m)))
           | NoErr \<Rightarrow> downloadChunkWithProgress ctxDone paused rest expectedBytes totalWritten)
      else LoopReturn totalWritten None)"

definition detectChunkResumeOffset :: "filesystem \<Rightarrow> string \<Rightarrow> int \<Rightarrow> int \<times> go_error option" where
  "detectChunkResumeOffset fs chunkFile expectedSize =
     (if \<not> FileExists fs chunkFile then (0, None)
      else
        (case files fs chunkFile of
           None \<Rightarrow> (0, None)
         | Some currentSize \<Rightarrow>
             if currentSize \<ge> expectedSize then (expectedSize, None)
             else (currentSize, None)))"

definition openChunkFile :: "filesystem \<Rightarrow> string \<Rightarrow> int \<Rightarrow> filesystem \<times> go_error option" where
  "openChunkFile fs chunkFile resumeOffset =
     (if resumeOffset > 0 then (fs, os_Open fs chunkFile)
      else os_Create fs chunkFile)"

text \<open>
  The state the workers share: the file system, the atomic counter
  \<open>totalCompletedBytes\<close> and \<open>d.Chunks\<close>.
\<close>

record ms_state =
  ms_fs :: filesystem
  totalCompletedBytes :: int
  ms_Chunks :: "ChunkData list"

datatype worker_outcome = WorkerDone "go_error option" | WorkerBlocked

definition appendBytes :: "string \<Rightarrow> int \<Rightarrow> ms_state \<Rightarrow> ms_state" where
  "appendBytes chunkFile n st =
     st\<lparr>ms_fs := (ms_fs st)\<lparr>files := (files (ms_fs st))
                    (chunkFile \<mapsto> (case files (ms_fs st) chunkFile of Some sz \<Rightarrow> sz | None \<Rightarrow> 0) + n)\<rparr>,
        totalCompletedBytes := totalCompletedBytes st + n\<rparr>"

definition markCompleted :: "nat \<Rightarrow> ms_state \<Rightarrow> ms_state" where
  "markCompleted chunkIndex st =
     st\<lparr>ms_Chunks := (ms_Chunks st)[chunkIndex := (ms_Chunks st ! chunkIndex)\<lparr>IsCompleted := True\<rparr>]\<rparr>"

text \<open>
  \<open>downloadSingleChunk\<close> sends one range request (\<open>attempt\<close> is what the origin does
  with it) and streams the body into the chunk file.  The function contains no loop
  around the request, and it does not read \<open>maxRetries\<close>.
\<close>

definition downloadSingleChunk ::
  "bool \<Rightarrow> Downloader \<Rightarrow> nat \<Rightarrow> ChunkData \<Rightarrow> string \<Rightarrow> int \<Rightarrow> http_attempt \<Rightarrow> ms_state
     \<Rightarrow> ms_state \<times> worker_outcome" where
  "downloadSingleChunk ctxDone d chunkIndex chunkData chunkFile resumeOffset attempt st =
     (case attempt of
        NewRequestFails m \<Rightarrow>
          (st, WorkerDone (Some (Errorf ''failed to create request'' (NetError m))))
      | DoFails m \<Rightarrow>
          (st, WorkerDone (Some (Errorf ''failed to make request''
                                   (if ctxDone then ContextCanceled else NetError m))))
      | Responds status body \<Rightarrow>
          if ctxDone then
            (st, WorkerDone (Some (Errorf ''failed to make request'' ContextCanceled)))
          else if status \<noteq> 206 then (st, WorkerDone (Some (UnexpectedStatus status)))
          else
            (case openChunkFile (ms_fs st) chunkFile resumeOffset of
               (fs', Some err) \<Rightarrow>
                 (st\<lparr>ms_fs := fs'\<rparr>, WorkerDone (Some (Errorf ''failed to open chunk file'' err)))
             | (fs', None) \<Rightarrow>
                 (case downloadChunkWithProgress ctxDone (isPaused d) body
                         (Size chunkData - resumeOffset) 0 of
                    LoopBlocked n \<Rightarrow> (appendBytes chunkFile n (st\<lparr>ms_fs := fs'\<rparr>), WorkerBlocked)
                  | LoopReturn n (Some err) \<Rightarrow>
                      (appendBytes chunkFile n (st\<lparr>ms_fs := fs'\<rparr>), WorkerDone (Some err))
                  | LoopReturn n None \<Rightarrow>
                      (markCompleted chunkIndex (appendBytes chunkFile n (st\<lparr>ms_fs := fs'\<rparr>)),
                       WorkerDone None))))"

text \<open>
  The goroutine that \<open>downloadChunksConcurrently\<close> starts for one chunk.
  \<open>origin i r\<close> is what the origin does with request number \<open>r\<close> for chunk \<open>i\<close>; the
  goroutine sends request number 0 only.
\<close>

definition chunkWorker ::
  "bool \<Rightarrow> Downloader \<Rightarrow> (nat \<Rightarrow> nat \<Rightarrow> http_attempt) \<Rightarrow> nat \<Rightarrow> ChunkData \<Rightarrow> string \<Rightarrow> ms_state
     \<Rightarrow> ms_state \<times> worker_outcome" where
  "chunkWorker ctxDone d origin chunkIndex chunkData chunkFile st =
     (case detectChunkResumeOffset (ms_fs st) chunkFile (Size chunkData) of
        (resumeOffset, Some err) \<Rightarrow>
          (st, WorkerDone (Some (ChunkErrorf chunkIndex ''resume detection failed'' err)))
      | (resumeOffset, None) \<Rightarrow>
          if resumeOffset \<ge> Size chunkData then
            (markCompleted chunkIndex
               (st\<lparr>totalCompletedBytes := totalCompletedBytes st + Size chunkData\<rparr>),
             WorkerDone None)
          else
            (case downloadSingleChunk ctxDone d chunkIndex chunkData chunkFile resumeOffset
                    (origin chunkIndex 0) st of
               (st', WorkerDone (Some err)) \<Rightarrow>
                 (st', WorkerDone (Some (ChunkErrorf chunkIndex ''download failed'' err)))
             | (st', outcome) \<Rightarrow> (st', outcome)))"

text \<open>
  The workers write to different files and to different slots of \<open>d.Chunks\<close>, and
  they add to the shared counter; the model runs them one after the other in index
  order and collects their outcomes.
\<close>

fun runWorkers ::
  "bool \<Rightarrow> Downloader \<Rightarrow> (nat \<Rightarrow> nat \<Rightarrow> http_attempt) \<Rightarrow> nat \<Rightarrow> (ChunkData \<times> string) list
     \<Rightarrow> ms_state \<Rightarrow> ms_state \<times> worker_outcome list" where
  "runWorkers ctxDone d origin i [] st = (st, [])"
| "runWorkers ctxDone d origin i ((chunk, chunkFile) # rest) st =
     (case chunkWorker ctxDone d origin i chunk chunkFile st of
        (st', outcome) \<Rightarrow>
          (case runWorkers ctxDone d origin (Suc i) rest st' of
             (st'', outcomes) \<Rightarrow> (st'', outcome # outcomes)))"

fun queuedErrors :: "worker_outcome list \<Rightarrow> go_error list" where
  "queuedErrors [] = []"
| "queuedErrors (WorkerDone (Some err) # rest) = err # queuedErrors rest"
| "queuedErrors (_ # rest) = queuedErrors rest"

datatype phase_result =
    PhaseReturns "go_error option"
  | PhaseBlocked
  | PhasePanics go_panic

text \<open>
  \<open>downloadChunksConcurrently\<close> waits for all workers and returns the error that
  reached the error channel first, if any.  Which one that is depends on the
  scheduling: \<open>firstArrived\<close> picks it.  If a worker waits on the pause gate for ever,
  \<open>wg.Wait\<close> does not return.  \<open>chunkFileNames[i]\<close> panics when there are fewer names
  than chunks.
\<close>

definition downloadChunksConcurrently ::
  "bool \<Rightarrow> nat \<Rightarrow> (nat \<Rightarrow> nat \<Rightarrow> http_attempt) \<Rightarrow> string list \<Rightarrow> Downloader \<Rightarrow> ms_state
     \<Rightarrow> ms_state \<times> phase_result" where
  "downloadChunksConcurrently ctxDone firstArrived origin chunkFileNames d st =
     (if length chunkFileNames < length (Chunks d) then (st, PhasePanics IndexOutOfRange)
      else
        (case runWorkers ctxDone d origin 0 (zip (Chunks d) chunkFileNames) st of
           (st', outcomes) \<Rightarrow>
             if WorkerBlocked \<in> set outcomes then (st', PhaseBlocked)
             else
               let errors = queuedErrors outcomes in
               if length errors > 0
               then (st', PhaseReturns (Some (errors ! (firstArrived mod length errors))))
               else (st', PhaseReturns None)))"

section \<open>Multi-stream orchestrator\<close>

datatype run_result =
    is_Finished: Finished (res_downloader: Downloader) (res_fs: filesystem)
  | NeverReturns (res_downloader: Downloader) (res_fs: filesystem)
  | Panics go_panic

text \<open>
  \<open>executeMultiStreamDownload\<close>.  \<open>chunkFileNames\<close> is the list of partial-file paths
  that \<open>ufs.GenerateChunkFileNames\<close> returns for the thread count.  Progress tracking
  and time stamps are left out.  \<open>ctxDone\<close> tells whether the context passed in is
  cancelled: it decides both what \<open>client.Do\<close> returns in the workers and the value of
  \<open>ctx.Err() == context.Canceled\<close> after the download phase.
\<close>

definition executeMultiStreamDownload ::
  "bool \<Rightarrow> nat \<Rightarrow> (nat \<Rightarrow> nat \<Rightarrow> http_attempt) \<Rightarrow> string list \<Rightarrow> Downloader \<Rightarrow> filesystem
     \<Rightarrow> run_result" where
  "executeMultiStreamDownload ctxDone firstArrived origin chunkFileNames d fs =
     (let threadCount = getOptimalThreadCount d in
      case DivideChunks (Filesize (ServerHeaders d)) threadCount of
        Inl p \<Rightarrow> Panics p
      | Inr chunkSizes \<Rightarrow>
          (case initializeChunks (Filesize (ServerHeaders d)) chunkSizes of
             Inl p \<Rightarrow> Panics p
           | Inr (chunks, manager) \<Rightarrow>
               let d = d\<lparr>Chunks := chunks\<rparr> in
               (case GenerateChunkFiles fs chunkFileNames of
                  (fs, Some err) \<Rightarrow>
                    Finished (handleDownloadError d (Errorf ''failed to create chunk files'' err)) fs
                | (fs, None) \<Rightarrow>
                    (case downloadChunksConcurrently ctxDone firstArrived origin chunkFileNames d
                            \<lparr>ms_fs = fs, totalCompletedBytes = 0, ms_Chunks = chunks\<rparr> of
                       (st, PhasePanics p) \<Rightarrow> Panics p
                     | (st, PhaseBlocked) \<Rightarrow> NeverReturns (d\<lparr>Chunks := ms_Chunks st\<rparr>) (ms_fs st)
                     | (st, PhaseReturns (Some err)) \<Rightarrow>
                         let fs = fst (CleanupChunkFiles (ms_fs st) chunkFileNames);
                             d = d\<lparr>Chunks := ms_Chunks st\<rparr>
                         in if ctxDone then Finished (d\<lparr>Status := DOWNLOAD_STOPPED\<rparr>) fs
                            else Finished (handleDownloadError d err) fs
                     | (st, PhaseReturns None) \<Rightarrow>
                         let d = d\<lparr>Chunks := ms_Chunks st\<rparr> in
                         (case MergeChunkFiles (ms_fs st) chunkFileNames (FullPath d) of
                            (fs, Some err) \<Rightarrow>
                              Finished (handleDownloadError d (Errorf ''failed to merge chunks'' err)) fs
                          | (fs, None) \<Rightarrow> Finished (finalizeDownload d) fs)))))"

text \<open>
  \<open>initializeMultiStreamDownload\<close>.  \<open>pathSetup\<close> is the outcome of
  \<open>setupDownloadPaths\<close>: its error, or the unique output path it resolved.  Time
  stamps, the progress tracker and the start callback are left out.
\<close>

definition initializeMultiStreamDownload ::
  "go_error + string \<Rightarrow> Downloader \<Rightarrow> Downloader \<times> go_error option" where
  "initializeMultiStreamDownload pathSetup d =
     (let d = d\<lparr>Status := DOWNLOAD_IN_PROGRESS\<rparr> in
      case pathSetup of
        Inl err \<Rightarrow> (d, Some (Errorf ''failed to setup download paths'' err))
      | Inr uniquePath \<Rightarrow>
          let d = d\<lparr>FullPath := uniquePath\<rparr> in
          if \<not> AcceptsRanges (ServerHeaders d) then
            (d, Some (ErrorText
               ''server does not support range requests - cannot use multi-stream download''))
          else if Filesize (ServerHeaders d) \<le> 0 then
            (d, Some (ErrorText ''file size unknown - cannot divide into chunks''))
          else (d, None))"

text \<open>
  \<open>DownloadMultiStream\<close> makes the context itself, with
  \<open>context.WithCancel(context.Background())\<close>, and nothing but its own deferred call,
  after \<open>executeMultiStreamDownload\<close> has returned, cancels it: the download runs
  with a context that is not cancelled.
\<close>

definition DownloadMultiStream ::
  "nat \<Rightarrow> (nat \<Rightarrow> nat \<Rightarrow> http_attempt) \<Rightarrow> go_error + string \<Rightarrow> string list \<Rightarrow> Downloader
     \<Rightarrow> filesystem \<Rightarrow> run_result" where
  "DownloadMultiStream firstArrived origin pathSetup chunkFileNames d fs =
     (case initializeMultiStreamDownload pathSetup d of
        (d, Some err) \<Rightarrow> Finished (handleDownloadError d err) fs
      | (d, None) \<Rightarrow> executeMultiStreamDownload False firstArrived origin chunkFileNames d fs)"

section \<open>Example inputs\<close>

text \<open>
  A 20 MiB file on a server with range support, fetched by two workers with
  \<open>maxRetries = 3\<close>; both partial files are left over from an earlier run.
\<close>

definition example_downloader :: Downloader where
  "example_downloader =
     \<lparr>Url = ''http://example.com/big.bin'',
      Prefs = \<lparr>DownloadDir = ''/dl'', fileName = [], threadCount = 2, maxRetries = 3\<rparr>,
      ServerHeaders = \<lparr>Filename = ''big.bin'', Filesize = 20971520, Filetype = [],
                       AcceptsRanges = True, FinalURL = ''http://example.com/big.bin''\<rparr>,
      Chunks = [], FullPath = ''/dl/big.bin'', isPaused = False,
      Status = DOWNLOAD_IN_PROGRESS, Error = None\<rparr>"

definition example_names :: "string list" where
  "example_names = [''/dl/big (0).udtemp'', ''/dl/big (1).udtemp'']"

definition example_fs :: filesystem where
  "example_fs = \<lparr>files = [''/dl/big (0).udtemp'' \<mapsto> 4096, ''/dl/big (1).udtemp'' \<mapsto> 8192],
                  denied = (\<lambda>p. False), undeletable = (\<lambda>p. False)\<rparr>"

text \<open>The same files, with an output path that cannot be created.\<close>

definition example_fs_locked_output :: filesystem where
  "example_fs_locked_output = example_fs\<lparr>denied := (\<lambda>p. p = ''/dl/big.bin'')\<rparr>"

text \<open>A body that delivers a 10 MiB chunk in 320 reads of 32 KiB.\<close>

definition full_body :: "io_event list" where
  "full_body = replicate 320 (ReadEv 32768 NoErr None)"

definition origin_ok :: "nat \<Rightarrow> nat \<Rightarrow> http_attempt" where
  "origin_ok i r = Responds 206 full_body"

text \<open>
  An origin that resets the connection once, in the middle of the first response for
  chunk 1, and answers every later request in full.
\<close>

definition origin_flaky :: "nat \<Rightarrow> nat \<Rightarrow> http_attempt" where
  "origin_flaky i r =
     (if i = 1 \<and> r = 0
      then Responds 206 [ReadEv 32768 NoErr None, ReadEv 0 (ReadFail ''connection reset by peer'') None]
      else Responds 206 full_body)"

text \<open>
  An origin that closes the first response for chunk 1 cleanly after 32768 bytes
  (\<open>io.EOF\<close> before the expected byte count).
\<close>

definition origin_short :: "nat \<Rightarrow> nat \<Rightarrow> http_attempt" where
  "origin_short i r =
     (if i = 1 \<and> r = 0
      then Responds 206 [ReadEv 32768 NoErr None, ReadEv 0 EOF None]
      else Responds 206 full_body)"

text \<open>A tracker one second after Go's zero time, and a sample standard library.\<close>

definition tracker0 :: ProgressTracker where
  "tracker0 = \<lparr>BytesCompleted = 0, TotalBytes = 0, LastReported = 1000000000, LastCheckTime = 0,
     SpeedBps = 0, Percentage = 0, ETA = 0, BytesPerSecond = 0, StartTime = 1000000000\<rparr>"

definition example_lib :: stdlib where
  "example_lib = \<lparr>ParseMediaType = (\<lambda>v. None), QueryUnescape = (\<lambda>v. Some v),
                   url_Parse_Path = (\<lambda>u. Some ''/file.bin''), path_Base = (\<lambda>p. ''file.bin''),
                   Sscanf_d = (\<lambda>v. 1048576)\<rparr>"

definition response_with_Accept_Ranges :: "string \<Rightarrow> http_response" where
  "response_with_Accept_Ranges v =
     \<lparr>StatusCode = 200,
      Header = [''Accept-Ranges'' \<mapsto> [v], ''Content-Length'' \<mapsto> [''1048576'']],
      RequestURL = ''http://example.com/file.bin'', RequestMethod = ''HEAD''\<rparr>"

section \<open>Properties of the chunk planner\<close>


lemma wrap64_id: "- (2 ^ 63) \<le> x \<Longrightarrow> x < 2 ^ 63 \<Longrightarrow> wrap64 x = x"
  unfolding wrap64_def by (rule signed_take_bit_int_eq_self) simp_all

lemma go_quot_nonneg:
  assumes "0 \<le> a" "a < 2 ^ 63" "0 < b"
  shows "go_quot a b = a div b"
proof -
  have d0: "0 \<le> a div b" using assms by (simp add: pos_imp_zdiv_nonneg_iff)
  have "b * (a div b) + a mod b = a" by simp
  moreover have "0 \<le> a mod b" using assms by simp
  moreover have "a div b \<le> b * (a div b)" using d0 assms by (simp add: mult_le_cancel_right1)
  ultimately have d1: "a div b \<le> a" by linarith
  have "sgn a * sgn b * (\<bar>a\<bar> div \<bar>b\<bar>) = a div b"
  proof (cases "a = 0")
    case True then show ?thesis by simp
  next
    case False
    with assms have "sgn a = 1" "sgn b = 1" by simp_all
    with assms show ?thesis by simp
  qed
  moreover have "wrap64 (a div b) = a div b"
    using d0 d1 assms by (intro wrap64_id) simp_all
  ultimately show ?thesis by (simp add: go_quot_def)
qed

lemma DivideChunks_fold:
  "n \<le> length chunks \<Longrightarrow>
   foldl (DivideChunks_body k b u) chunks [0 ..< n] =
   map (\<lambda>i. if int i = k - 2 then wrap64 (b + u) else b) [0 ..< n] @ drop n chunks"
proof (induction n)
  case 0
  then show ?case by simp
next
  case (Suc n)
  then have n: "n < length chunks" by simp
  have "drop n chunks = chunks ! n # drop (Suc n) chunks"
    using n by (simp add: Cons_nth_drop_Suc)
  then show ?case
    using Suc n by (simp add: DivideChunks_body_def list_update_append)
qed

lemma DivideChunks_eq:
  assumes N: "0 \<le> N" "N < 2 ^ 63" and k: "1 \<le> k" "k < 2 ^ 63"
  shows "DivideChunks N k =
         Inr (map (\<lambda>i. if int i = k - 2 then N div k + N mod k else N div k) [0 ..< nat k])"
proof -
  have q: "go_quot N k = N div k" using N k by (simp add: go_quot_nonneg)
  have d0: "0 \<le> N div k" using N k by (simp add: pos_imp_zdiv_nonneg_iff)
  have m0: "0 \<le> N mod k" using k by simp
  have eq: "k * (N div k) + N mod k = N" by simp
  have kb0: "0 \<le> k * (N div k)" using d0 k by simp
  have kb: "k * (N div k) \<le> N" using eq m0 by linarith
  have t: "wrap64 (k * (N div k)) = k * (N div k)"
    using kb0 kb N by (intro wrap64_id) simp_all
  have r: "N - k * (N div k) = N mod k" using eq by linarith
  have u: "wrap64 (N mod k) = N mod k"
    using m0 kb0 eq N by (intro wrap64_id) linarith+
  have "N div k \<le> k * (N div k)" using d0 k by (simp add: mult_le_cancel_right1)
  then have "N div k + N mod k \<le> N" using eq by linarith
  then have s: "wrap64 (N div k + N mod k) = N div k + N mod k"
    using d0 m0 N by (intro wrap64_id) linarith+
  show ?thesis
    using k by (simp add: DivideChunks_def Let_def q t r u s DivideChunks_fold)
qed


lemma sum_list_map_if_index:
  assumes "j < n"
  shows "(\<Sum>i\<leftarrow>[0 ..< n]. if i = j then (a::int) else b) = int (n - 1) * b + a"
  using assms
proof (induction n)
  case 0
  then show ?case by simp
next
  case (Suc n)
  show ?case
  proof (cases "j = n")
    case True
    then have "(\<Sum>i\<leftarrow>[0 ..< n]. if i = j then a else b) = (\<Sum>i\<leftarrow>[0 ..< n]. b)"
      by (intro arg_cong[where f = sum_list] map_cong) auto
    then show ?thesis using True by (simp add: sum_list_triv)
  next
    case False
    with Suc have "j < n" by simp
    with Suc.IH have "(\<Sum>i\<leftarrow>[0 ..< n]. if i = j then a else b) = int (n - 1) * b + a" by simp
    moreover have "0 < n" using \<open>j < n\<close> by simp
    ultimately show ?thesis using False by (simp add: algebra_simps of_nat_diff)
  qed
qed

lemma DivideChunks_sizes_sum:
  assumes "1 \<le> k"
  shows "(\<Sum>i\<leftarrow>[0 ..< nat k]. if int i = k - 2 then N div k + N mod k else N div k) = N"
proof (cases "k = 1")
  case True
  then show ?thesis by simp
next
  case False
  with assms have k2: "2 \<le> k" by simp
  define j where "j = nat (k - 2)"
  have j: "j < nat k" using k2 by (simp add: j_def)
  have "(\<Sum>i\<leftarrow>[0 ..< nat k]. if int i = k - 2 then N div k + N mod k else N div k)
        = (\<Sum>i\<leftarrow>[0 ..< nat k]. if i = j then N div k + N mod k else N div k)"
    using k2 by (intro arg_cong[where f = sum_list] map_cong) (auto simp: j_def)
  also have "\<dots> = int (nat k - 1) * (N div k) + (N div k + N mod k)"
    by (rule sum_list_map_if_index[OF j])
  also have "\<dots> = k * (N div k) + N mod k"
    using k2 by (simp add: algebra_simps of_nat_diff)
  finally show ?thesis by simp
qed

lemma initializeChunks_loop_length [simp]:
  "length (initializeChunks_loop i off szs) = length szs"
  by (induction szs arbitrary: i off) simp_all

lemma initializeChunks_loop_nth:
  assumes "\<forall>s \<in> set szs. 0 \<le> s" "0 \<le> off" "off + sum_list szs < 2 ^ 63" "j < length szs"
  shows "initializeChunks_loop i off szs ! j =
         \<lparr>Index = int (i + j), Start = off + sum_list (take j szs),
          End = off + sum_list (take j szs) + szs ! j - 1,
          Size = szs ! j, IsCompleted = False\<rparr>"
  using assms
proof (induction szs arbitrary: i off j)
  case Nil
  then show ?case by simp
next
  case (Cons s rest)
  have s0: "0 \<le> s" and r0: "\<forall>x \<in> set rest. 0 \<le> x" using Cons.prems(1) by simp_all
  have sum0: "0 \<le> sum_list rest" using r0 by (simp add: sum_list_nonneg)
  have b: "off + s < 2 ^ 63" using Cons.prems(3) sum0 by simp
  have w1: "wrap64 (off + s) = off + s"
    using s0 Cons.prems(2) b by (intro wrap64_id) linarith+
  have w2: "wrap64 (off + s - 1) = off + s - 1"
    using s0 Cons.prems(2) b by (intro wrap64_id) linarith+
  show ?case
  proof (cases j)
    case 0
    then show ?thesis by (simp add: w1 w2)
  next
    case (Suc j')
    have "initializeChunks_loop (Suc i) (off + s) rest ! j' =
          \<lparr>Index = int (Suc i + j'), Start = off + s + sum_list (take j' rest),
           End = off + s + sum_list (take j' rest) + rest ! j' - 1,
           Size = rest ! j', IsCompleted = False\<rparr>"
      using r0 s0 Cons.prems Suc by (intro Cons.IH) simp_all
    then show ?thesis using Suc by (simp add: w1 w2 add.assoc)
  qed
qed


lemma plannedSizes_length [simp]: "length (plannedSizes N k) = nat k"
  by (simp add: plannedSizes_def)

lemma plannedSizes_nth:
  "i < nat k \<Longrightarrow> plannedSizes N k ! i = (if int i = k - 2 then N div k + N mod k else N div k)"
  by (simp add: plannedSizes_def)

lemma plannedSizes_nonneg:
  assumes "0 \<le> N" "1 \<le> k"
  shows "\<forall>s \<in> set (plannedSizes N k). 0 \<le> s"
proof -
  have "0 \<le> N div k" using assms by (simp add: pos_imp_zdiv_nonneg_iff)
  moreover have "0 \<le> N mod k" using assms by simp
  ultimately show ?thesis by (auto simp: plannedSizes_def)
qed

lemma plannedSizes_sum: "1 \<le> k \<Longrightarrow> sum_list (plannedSizes N k) = N"
  unfolding plannedSizes_def by (rule DivideChunks_sizes_sum)

lemma DivideChunks_planned:
  "0 \<le> N \<Longrightarrow> N < 2 ^ 63 \<Longrightarrow> 1 \<le> k \<Longrightarrow> k < 2 ^ 63 \<Longrightarrow>
   DivideChunks N k = Inr (plannedSizes N k)"
  by (simp add: DivideChunks_eq plannedSizes_def)

lemma planChunks_planned:
  assumes "0 \<le> N" "N < 2 ^ 63" "1 \<le> k" "k < 2 ^ 63"
  shows "planChunks N k = Inr (initializeChunks_loop 0 0 (plannedSizes N k))"
proof -
  have "plannedSizes N k \<noteq> []" using assms by (simp flip: length_0_conv)
  then obtain s rest where "plannedSizes N k = s # rest" by (cases "plannedSizes N k") auto
  then show ?thesis
    using assms by (simp add: planChunks_def DivideChunks_planned initializeChunks_def Let_def)
qed

lemma planned_chunk_nth:
  assumes "0 \<le> N" "N < 2 ^ 63" "1 \<le> k" "j < nat k"
  shows "initializeChunks_loop 0 0 (plannedSizes N k) ! j =
         \<lparr>Index = int j, Start = sum_list (take j (plannedSizes N k)),
          End = sum_list (take j (plannedSizes N k)) + plannedSizes N k ! j - 1,
          Size = plannedSizes N k ! j, IsCompleted = False\<rparr>"
  using initializeChunks_loop_nth[of "plannedSizes N k" 0 j 0] assms
  by (simp add: plannedSizes_nonneg plannedSizes_sum)

lemma sum_list_take_Suc:
  "j < length xs \<Longrightarrow> sum_list (take (Suc j) xs) = sum_list (take j xs) + (xs ! j :: int)"
  by (simp add: take_Suc_conv_app_nth)

lemma sum_list_take_mono:
  assumes "\<forall>x \<in> set xs. (0::int) \<le> x" "i \<le> j"
  shows "sum_list (take i xs) \<le> sum_list (take j xs)"
proof -
  have "take j xs = take i xs @ take (j - i) (drop i xs)"
    using assms(2) by (metis le_add_diff_inverse take_add)
  moreover have "0 \<le> sum_list (take (j - i) (drop i xs))"
    using assms(1) by (intro sum_list_nonneg) (auto dest!: in_set_takeD in_set_dropD)
  ultimately show ?thesis by simp
qed

text \<open>
  Claim C4.  For every file size \<open>N\<close> and worker count \<open>k\<close> with \<open>1 \<le> k \<le> N\<close>
  (and \<open>N\<close> an \<open>int64\<close>), \<open>DivideChunks\<close> followed by \<open>initializeChunks\<close> returns
  \<open>k\<close> chunks whose sizes sum to \<open>N\<close>, whose inclusive ranges are contiguous
  (\<open>End + 1\<close> is the next \<open>Start\<close>), pairwise disjoint and non-empty, with the first
  chunk starting at byte 0 and the last ending at byte \<open>N - 1\<close>.
\<close>

theorem chunk_planner_partition:
  assumes "1 \<le> k" "k \<le> N" "N < 2 ^ 63"
  shows "\<exists>C. planChunks N k = Inr C \<and> length C = nat k
           \<and> sum_list (map Size C) = N
           \<and> (\<forall>i. Suc i < nat k \<longrightarrow> End (C ! i) + 1 = Start (C ! Suc i))
           \<and> (\<forall>i j. i < j \<and> j < nat k \<longrightarrow> End (C ! i) < Start (C ! j))
           \<and> (\<forall>i < nat k. Start (C ! i) \<le> End (C ! i)
                  \<and> Size (C ! i) = End (C ! i) - Start (C ! i) + 1)
           \<and> Start (C ! 0) = 0 \<and> End (C ! (nat k - 1)) = N - 1"
proof -
  define szs where "szs = plannedSizes N k"
  define C where "C = initializeChunks_loop 0 0 szs"
  have N0: "0 \<le> N" and k63: "k < 2 ^ 63" using assms by simp_all
  have len: "length szs = nat k" by (simp add: szs_def)
  have nonneg: "\<forall>s \<in> set szs. 0 \<le> s"
    unfolding szs_def using N0 assms(1) by (rule plannedSizes_nonneg)
  have tot: "sum_list szs = N" unfolding szs_def using assms(1) by (rule plannedSizes_sum)
  have b1: "1 \<le> N div k" using zdiv_mono1[of k N k] assms by simp
  have m0: "0 \<le> N mod k" using assms by simp
  have bm1: "1 \<le> N div k + N mod k" using b1 m0 by linarith
  have pos: "1 \<le> szs ! j" if "j < nat k" for j
    using that b1 bm1 by (simp add: szs_def plannedSizes_nth)
  have nth: "C ! j = \<lparr>Index = int j, Start = sum_list (take j szs),
                       End = sum_list (take j szs) + szs ! j - 1,
                       Size = szs ! j, IsCompleted = False\<rparr>" if "j < nat k" for j
    unfolding C_def szs_def using N0 assms(3) assms(1) that by (rule planned_chunk_nth)
  have plan: "planChunks N k = Inr C"
    unfolding C_def szs_def using N0 assms(3) assms(1) k63 by (rule planChunks_planned)
  have lenC: "length C = nat k" by (simp add: C_def len)
  have "map Size C = szs"
    by (rule nth_equalityI) (simp_all add: lenC len nth)
  then have sumC: "sum_list (map Size C) = N" using tot by simp
  have contig: "End (C ! i) + 1 = Start (C ! Suc i)" if "Suc i < nat k" for i
  proof -
    have "i < nat k" using that by simp
    then show ?thesis using that by (simp add: nth sum_list_take_Suc len)
  qed
  have disj: "End (C ! i) < Start (C ! j)" if "i < j" "j < nat k" for i j
  proof -
    have i: "i < nat k" using that by simp
    have "sum_list (take (Suc i) szs) \<le> sum_list (take j szs)"
      using nonneg that(1) by (intro sum_list_take_mono) simp_all
    then show ?thesis using i that by (simp add: nth sum_list_take_Suc len)
  qed
  have each: "Start (C ! i) \<le> End (C ! i) \<and> Size (C ! i) = End (C ! i) - Start (C ! i) + 1"
    if "i < nat k" for i
    using that pos[OF that] by (simp add: nth)
  have k0: "0 < nat k" using assms by simp
  have first: "Start (C ! 0) = 0" using nth[OF k0] by simp
  have "nat k - 1 < nat k" using k0 by simp
  moreover have "sum_list (take (nat k - 1) szs) + szs ! (nat k - 1) = sum_list szs"
    using sum_list_take_Suc[of "nat k - 1" szs] k0 len by simp
  ultimately have last: "End (C ! (nat k - 1)) = N - 1" using tot by (simp add: nth)
  show ?thesis
    using plan lenC sumC contig disj each first last by blast
qed

theorem chunk_planner_partition_witness:
  "(1::int) \<le> 4 \<and> (4::int) \<le> 10485761 \<and> (10485761::int) < 2 ^ 63 \<and>
   (\<exists>C. planChunks 10485761 4 = Inr C \<and> length C = 4 \<and> sum_list (map Size C) = 10485761
      \<and> Start (C ! 0) = 0 \<and> End (C ! 3) = 10485760)"
  using chunk_planner_partition[of 4 10485761] by auto


text \<open>
  Claim C5.  For \<open>N \<ge> k \<ge> 1\<close>, \<open>DivideChunks\<close> gives every chunk the base size
  \<open>b = N div k\<close>, except index \<open>k - 2\<close>, which gets \<open>b\<close> plus the remainder
  \<open>N - k * b\<close>.  With one worker the single chunk has size \<open>N\<close>; with two workers the
  remainder goes to chunk 0; and \<open>DivideChunks(10485761, 4)\<close> is
  \<open>[2621440, 2621440, 2621441, 2621440]\<close>.
\<close>

theorem DivideChunks_remainder_placement:
  assumes "1 \<le> k" "k \<le> N" "N < 2 ^ 63"
  shows "(\<exists>sizes. DivideChunks N k = Inr sizes \<and> length sizes = nat k
            \<and> (\<forall>i < nat k. sizes ! i =
                  (if int i = k - 2 then N div k + (N - k * (N div k)) else N div k)))
         \<and> DivideChunks N 1 = Inr [N]
         \<and> DivideChunks N 2 = Inr [N div 2 + (N - 2 * (N div 2)), N div 2]
         \<and> DivideChunks 10485761 4 = Inr [2621440, 2621440, 2621441, 2621440]"
proof -
  have N0: "0 \<le> N" and k63: "k < 2 ^ 63" using assms by simp_all
  have r: "N - k * (N div k) = N mod k" by (simp add: minus_mult_div_eq_mod)
  have r2: "N - 2 * (N div 2) = N mod 2" by (simp add: minus_mult_div_eq_mod)
  have general: "DivideChunks N k = Inr (plannedSizes N k)"
    using N0 assms(3) assms(1) k63 by (rule DivideChunks_planned)
  have one: "DivideChunks N 1 = Inr [N]"
    using N0 assms(3) by (simp add: DivideChunks_planned plannedSizes_def)
  have "[0 ..< nat 2] = [0, 1]" by (simp add: upt_rec)
  then have two: "DivideChunks N 2 = Inr [N div 2 + (N - 2 * (N div 2)), N div 2]"
    using N0 assms(3) by (simp add: DivideChunks_planned plannedSizes_def r2)
  have "[0 ..< nat 4] = [0, 1, 2, 3]" by (simp add: upt_rec)
  then have s3: "DivideChunks 10485761 4 = Inr [2621440, 2621440, 2621441, 2621440]"
    by (simp add: DivideChunks_planned plannedSizes_def)
  show ?thesis
    using general one two s3 by (simp add: plannedSizes_nth r)
qed

theorem DivideChunks_remainder_placement_witness:
  "(1::int) \<le> 4 \<and> (4::int) \<le> 10485761 \<and> (10485761::int) < 2 ^ 63
   \<and> DivideChunks 10485761 4 = Inr [2621440, 2621440, 2621441, 2621440]
   \<and> DivideChunks 10485761 1 = Inr [10485761]
   \<and> DivideChunks 10485761 2 = Inr [5242881, 5242880]"
  using DivideChunks_remainder_placement[of 4 10485761] by simp

text \<open>
  Claim C10.  For \<open>k \<ge> 2\<close> workers and a size \<open>0 \<le> N < k\<close>, \<open>DivideChunks\<close> still
  returns \<open>k\<close> sizes that sum to \<open>N\<close>, but all of them are 0 except index \<open>k - 2\<close>,
  which gets all \<open>N\<close> bytes; the chunks built from them therefore include empty
  chunks whose \<open>End\<close> is below their \<open>Start\<close>.
\<close>

theorem DivideChunks_below_worker_count:
  assumes "2 \<le> k" "k < 2 ^ 63" "0 \<le> N" "N < k"
  shows "\<exists>sizes C. DivideChunks N k = Inr sizes \<and> length sizes = nat k
           \<and> sum_list sizes = N
           \<and> (\<forall>i < nat k. sizes ! i = (if int i = k - 2 then N else 0))
           \<and> planChunks N k = Inr C \<and> length C = nat k
           \<and> (\<forall>i < nat k. int i \<noteq> k - 2 \<longrightarrow> Size (C ! i) = 0 \<and> End (C ! i) < Start (C ! i))
           \<and> (\<exists>i < nat k. End (C ! i) < Start (C ! i))"
proof -
  define sizes where "sizes = plannedSizes N k"
  define C where "C = initializeChunks_loop 0 0 sizes"
  have k1: "1 \<le> k" and N63: "N < 2 ^ 63" using assms by simp_all
  have d: "N div k = 0" and m: "N mod k = N" using assms by simp_all
  have dc: "DivideChunks N k = Inr sizes"
    unfolding sizes_def using assms(3) N63 k1 assms(2) by (rule DivideChunks_planned)
  have len: "length sizes = nat k" by (simp add: sizes_def)
  have tot: "sum_list sizes = N" unfolding sizes_def using k1 by (rule plannedSizes_sum)
  have nth: "sizes ! i = (if int i = k - 2 then N else 0)" if "i < nat k" for i
    using that by (simp add: sizes_def plannedSizes_nth d m)
  have plan: "planChunks N k = Inr C"
    unfolding C_def sizes_def using assms(3) N63 k1 assms(2) by (rule planChunks_planned)
  have lenC: "length C = nat k" by (simp add: C_def len)
  have Cnth: "C ! j = \<lparr>Index = int j, Start = sum_list (take j sizes),
                       End = sum_list (take j sizes) + sizes ! j - 1,
                       Size = sizes ! j, IsCompleted = False\<rparr>" if "j < nat k" for j
    unfolding C_def sizes_def using assms(3) N63 k1 that by (rule planned_chunk_nth)
  have empty: "Size (C ! i) = 0 \<and> End (C ! i) < Start (C ! i)"
    if "i < nat k" "int i \<noteq> k - 2" for i
    using that by (simp add: Cnth nth)
  have "nat k - 1 < nat k" "int (nat k - 1) \<noteq> k - 2" using assms by auto
  then have ex: "\<exists>i < nat k. End (C ! i) < Start (C ! i)" using empty by blast
  show ?thesis
    using dc len tot nth plan lenC empty ex by blast
qed

theorem DivideChunks_below_worker_count_witness:
  "(2::int) \<le> 4 \<and> (4::int) < 2 ^ 63 \<and> (0::int) \<le> 3 \<and> (3::int) < 4
   \<and> (\<exists>sizes C. DivideChunks 3 4 = Inr sizes \<and> sum_list sizes = 3
         \<and> planChunks 3 4 = Inr C \<and> (\<exists>i < 4. End (C ! i) < Start (C ! i)))"
  using DivideChunks_below_worker_count[of 4 3] by auto

section \<open>Strategy selection\<close>

text \<open>
  Claim C6.  The strategy selector takes the multi-stream path if and only if the
  server accepts ranges, the size is known (\<open>> 0\<close>), the size is at least 10 MiB and the
  effective worker count (\<open>getOptimalThreadCount\<close>) is greater than 1; in every other
  case it takes the single-stream path.
\<close>

theorem strategy_selector_iff:
  "(executeDownloadStrategy d = MultiStream) =
     (AcceptsRanges (ServerHeaders d) \<and> Filesize (ServerHeaders d) > 0
      \<and> Filesize (ServerHeaders d) \<ge> 10 * 1024 * 1024 \<and> getOptimalThreadCount d > 1)
   \<and> (executeDownloadStrategy d = SingleStream) =
     (\<not> (AcceptsRanges (ServerHeaders d) \<and> Filesize (ServerHeaders d) > 0
      \<and> Filesize (ServerHeaders d) \<ge> 10 * 1024 * 1024 \<and> getOptimalThreadCount d > 1))"
  by (auto simp: executeDownloadStrategy_def shouldUseMultiStream_def minSizeForMultiStream_def
      getOptimalThreadCount_def Let_def)

section \<open>Probe\<close>

lemma tryGetServerData_status_error:
  "400 \<le> StatusCode resp \<Longrightarrow> tryGetServerData lib url (DoResponse resp) = (None, None)"
  by (simp add: tryGetServerData_def)

lemma GetServerData_status_error:
  "net 1 = DoResponse resp \<Longrightarrow> 400 \<le> StatusCode resp \<Longrightarrow>
   GetServerData lib url net = (None, None)"
  by (simp add: GetServerData_def probe_maxRetries_def tryGetServerData_def)

text \<open>Three transport errors in a row do give the aggregated error.\<close>

lemma GetServerData_transport_errors:
  "net 1 = DoError e1 \<Longrightarrow> net 2 = DoError e2 \<Longrightarrow> net 3 = DoError e3 \<Longrightarrow>
   GetServerData lib url net = (None, Some (FailedAfterAttempts 3 (Some e3)))"
  by (simp add: GetServerData_def probe_maxRetries_def tryGetServerData_def
      numeral_2_eq_2 numeral_3_eq_3)

text \<open>
  Claim C7.  The probe is claimed to return a \<open>ServerData\<close> value or an error, never
  neither, also when the response status is 400 or above.  On a HEAD response with
  status 404 and no transport error, \<open>tryGetServerData\<close> returns \<open>(nil, err)\<close> with
  \<open>err = nil\<close>, and \<open>GetServerData\<close> passes that on at the first attempt: the result is
  \<open>(nil, nil)\<close>.
\<close>

theorem GetServerData_nil_nil_on_404:
  "GetServerData lib ''http://example.com/missing''
     (\<lambda>n. DoResponse \<lparr>StatusCode = 404, Header = Map.empty,
                       RequestURL = ''http://example.com/missing'', RequestMethod = ''HEAD''\<rparr>)
   = (None, None)"
  by (simp add: GetServerData_def probe_maxRetries_def tryGetServerData_def)

lemma strings_HasPrefix_iff: "strings_HasPrefix s pre \<longleftrightarrow> (\<exists>ss. s = pre @ ss)"
  unfolding strings_HasPrefix_def
  by (metis append_eq_conv_conj append_take_drop_id)

lemma strings_Contains_iff: "strings_Contains s sub \<longleftrightarrow> (\<exists>ps ss. s = ps @ sub @ ss)"
proof (induction s)
  case Nil
  then show ?case by auto
next
  case (Cons c s)
  show ?case
  proof
    assume "strings_Contains (c # s) sub"
    then consider "strings_HasPrefix (c # s) sub" | "strings_Contains s sub" by auto
    then show "\<exists>ps ss. c # s = ps @ sub @ ss"
    proof cases
      case 1
      then obtain ss where "c # s = sub @ ss" by (auto simp: strings_HasPrefix_iff)
      then have "c # s = [] @ sub @ ss" by simp
      then show ?thesis by blast
    next
      case 2
      then obtain ps ss where "s = ps @ sub @ ss" using Cons.IH by auto
      then have "c # s = (c # ps) @ sub @ ss" by simp
      then show ?thesis by blast
    qed
  next
    assume "\<exists>ps ss. c # s = ps @ sub @ ss"
    then obtain ps ss where eq: "c # s = ps @ sub @ ss" by auto
    show "strings_Contains (c # s) sub"
    proof (cases ps)
      case Nil
      then have "strings_HasPrefix (c # s) sub" using eq by (auto simp: strings_HasPrefix_iff)
      then show ?thesis by simp
    next
      case (Cons p ps')
      then have "s = ps' @ sub @ ss" using eq by simp
      then have "strings_Contains s sub" using Cons.IH by blast
      then show ?thesis by simp
    qed
  qed
qed

lemma filenameFromContentDisposition_AcceptsRanges [simp]:
  "AcceptsRanges (filenameFromContentDisposition lib cd data) = AcceptsRanges data"
  by (simp add: filenameFromContentDisposition_def split: option.splits)

lemma filenameFromURL_AcceptsRanges [simp]:
  "AcceptsRanges (filenameFromURL lib finalURL data) = AcceptsRanges data"
  by (simp add: filenameFromURL_def Let_def split: option.splits)

lemma tryGetServerData_AcceptsRanges:
  assumes "tryGetServerData lib url (DoResponse resp) = (Some data, err)"
  shows "AcceptsRanges data = strings_Contains (Header_Get (Header resp) ''Accept-Ranges'') ''bytes''"
proof -
  have ok: "\<not> 400 \<le> StatusCode resp"
    using assms by (auto simp: tryGetServerData_def)
  show ?thesis
  proof (cases "strings_Contains (Header_Get (Header resp) ''Accept-Ranges'') ''bytes''")
    case True
    with ok assms show ?thesis
      by (auto simp: tryGetServerData_def Let_def split: if_splits)
  next
    case False
    with ok assms show ?thesis
      by (auto simp: tryGetServerData_def Let_def split: if_splits)
  qed
qed

text \<open>
  Claim C8, as stated: the accepts-ranges flag is true if and only if the
  \<open>Accept-Ranges\<close> header contains \<open>bytes\<close> ignoring letter case, so that \<open>Bytes\<close> yields
  true.  On a response whose header is \<open>Accept-Ranges: Bytes\<close> the rule of the
  specification holds, but the probe returns the flag false.
\<close>

theorem accepts_ranges_Bytes_counterexample:
  "spec_accepts_ranges (Header_Get (Header (response_with_Accept_Ranges ''Bytes'')) ''Accept-Ranges'')
   \<and> fst (tryGetServerData example_lib ''http://example.com/file.bin''
            (DoResponse (response_with_Accept_Ranges ''Bytes'')))
       = Some \<lparr>Filename = ''file.bin'', Filesize = 1048576, Filetype = [],
               AcceptsRanges = False, FinalURL = ''http://example.com/file.bin''\<rparr>"
  by (simp add: tryGetServerData_def example_lib_def response_with_Accept_Ranges_def Header_Get_def
      filenameFromContentDisposition_def filenameFromURL_def strings_HasPrefix_def Let_def
      spec_accepts_ranges_def ascii_lower_def)

text \<open>
  Claim C8, amended.  Whenever the probe returns server data, the accepts-ranges flag
  is true if and only if the \<open>Accept-Ranges\<close> header value contains \<open>bytes\<close> as a
  case-sensitive substring.
\<close>

theorem accepts_ranges_case_sensitive:
  assumes "tryGetServerData lib url (DoResponse resp) = (Some data, err)"
  shows "AcceptsRanges data =
         (\<exists>ps ss. Header_Get (Header resp) ''Accept-Ranges'' = ps @ ''bytes'' @ ss)"
  using tryGetServerData_AcceptsRanges[OF assms] by (simp add: strings_Contains_iff)

theorem accepts_ranges_case_sensitive_witness:
  "tryGetServerData example_lib ''http://example.com/file.bin''
      (DoResponse (response_with_Accept_Ranges ''bytes''))
    = (Some \<lparr>Filename = ''file.bin'', Filesize = 1048576, Filetype = [],
              AcceptsRanges = True, FinalURL = ''http://example.com/file.bin''\<rparr>, None)
   \<and> (\<exists>ps ss. Header_Get (Header (response_with_Accept_Ranges ''bytes'')) ''Accept-Ranges''
                 = ps @ ''bytes'' @ ss)"
proof -
  have eq: "tryGetServerData example_lib ''http://example.com/file.bin''
      (DoResponse (response_with_Accept_Ranges ''bytes''))
    = (Some \<lparr>Filename = ''file.bin'', Filesize = 1048576, Filetype = [],
              AcceptsRanges = True, FinalURL = ''http://example.com/file.bin''\<rparr>, None)"
    by (simp add: tryGetServerData_def example_lib_def response_with_Accept_Ranges_def Header_Get_def
      filenameFromContentDisposition_def filenameFromURL_def strings_HasPrefix_def Let_def)
  show ?thesis
    using accepts_ranges_case_sensitive[OF eq] eq by simp
qed

section \<open>Progress tracking\<close>

text \<open>
  The sampler of the multi-stream path divides all bytes counted since its last
  report by the time since that report.
\<close>

lemma monitorTick_speed:
  assumes "1 \<le> Seconds (now - lastReportTime)"
    and "monitorTick now current filesize lastReported lastReportTime pt = (pt', lr', lt')"
  shows "SpeedBps pt' = real_of_int (wrap64 (current - lastReported)) / Seconds (now - lastReportTime)"
  using assms by (auto simp: monitorTick_def Let_def split: if_splits)

text \<open>
  Claim C9.  The claim is that on every progress update the current speed is the
  number of bytes downloaded since the last speed sample, divided by the time since
  that sample, with samples one second apart.  Two reads of 32768 bytes arrive 0.6 s
  and 1.2 s after the last sample.  \<open>updateProgress\<close> takes no sample at the first;
  at the second, 65536 bytes and 1.2 s after the last sample, it sets the speed to
  the 32768 bytes of the last read divided by 1.2 s.
\<close>

theorem updateProgress_speed_counts_last_read_only:
  "(let (t1, sampled1) = updateProgress 1600000000 tracker0 32768 1048576;
        (t2, sampled2) = updateProgress 2200000000 t1 32768 1048576
    in \<not> sampled1 \<and> SpeedBps t1 = 0 \<and> sampled2
       \<and> BytesCompleted t2 - BytesCompleted tracker0 = 65536
       \<and> Seconds (2200000000 - LastReported tracker0) = 12 / 10
       \<and> SpeedBps t2 = 32768 / (12 / 10)
       \<and> SpeedBps t2 \<noteq> 65536 / (12 / 10))"
  by (simp add: updateProgress_def tracker0_def time_Second_def wrap64_id Let_def Seconds_def)

text \<open>
  \<open>updateProgress\<close> in general: a sample is taken only when a second or more has
  passed since the last one, and the speed is then the bytes of this call over that
  time.
\<close>

lemma updateProgress_sample:
  assumes "time_Second \<le> now - LastReported pt"
  shows "SpeedBps (fst (updateProgress now pt bytesRead totalSize))
           = real_of_int bytesRead / Seconds (now - LastReported pt)"
    and "LastReported (fst (updateProgress now pt bytesRead totalSize)) = now"
    and "snd (updateProgress now pt bytesRead totalSize)"
  using assms by (simp_all add: updateProgress_def Let_def)

lemma updateProgress_no_sample:
  assumes "now - LastReported pt < time_Second"
  shows "SpeedBps (fst (updateProgress now pt bytesRead totalSize)) = SpeedBps pt"
    and "LastReported (fst (updateProgress now pt bytesRead totalSize)) = LastReported pt"
    and "\<not> snd (updateProgress now pt bytesRead totalSize)"
  using assms by (simp_all add: updateProgress_def Let_def)

text \<open>
  \<open>ProgressTracker.UpdateProgress\<close>, which the multi-stream path calls once with 0
  bytes, takes a sample on every call after the first report.
\<close>

lemma UpdateProgress_sample:
  assumes "LastReported pt \<noteq> 0" and "LastReported pt < now"
  shows "SpeedBps (UpdateProgress now pt bytesRead totalSize)
           = real_of_int bytesRead / Seconds (now - LastReported pt)"
    and "LastReported (UpdateProgress now pt bytesRead totalSize) = now"
  using assms by (simp_all add: UpdateProgress_def Let_def Seconds_def)

section \<open>Chunk files on failure\<close>

lemma os_Remove_undeletable: "os_Remove fs p = (fs', e) \<Longrightarrow> undeletable fs' = undeletable fs"
  by (auto simp: os_Remove_def split: if_splits)

lemma os_Remove_files:
  "os_Remove fs n = (fs', e) \<Longrightarrow>
   files fs' p = (if p = n \<and> \<not> undeletable fs p then None else files fs p)"
  by (auto simp: os_Remove_def split: if_splits)

lemma os_Create_undeletable: "os_Create fs p = (fs', e) \<Longrightarrow> undeletable fs' = undeletable fs"
  by (auto simp: os_Create_def split: if_splits)

lemma CreateFile_undeletable: "CreateFile fs p = (fs', e) \<Longrightarrow> undeletable fs' = undeletable fs"
  by (auto simp: CreateFile_def split: prod.splits option.splits dest: os_Create_undeletable)

lemma GenerateChunkFiles_loop_undeletable:
  "GenerateChunkFiles_loop fs i names = (fs', e) \<Longrightarrow> undeletable fs' = undeletable fs"
proof (induction names arbitrary: fs i)
  case Nil
  then show ?case by simp
next
  case (Cons n names)
  obtain fs1 e1 where c: "CreateFile fs n = (fs1, e1)" by (cases "CreateFile fs n")
  have d1: "undeletable fs1 = undeletable fs" using c by (rule CreateFile_undeletable)
  show ?case
  proof (cases e1)
    case None
    then have "GenerateChunkFiles_loop fs1 (Suc i) names = (fs', e)" using Cons.prems c by simp
    then show ?thesis using Cons.IH d1 by simp
  next
    case (Some err)
    then show ?thesis using Cons.prems c d1 by simp
  qed
qed

lemma GenerateChunkFiles_undeletable:
  "GenerateChunkFiles fs names = (fs', e) \<Longrightarrow> undeletable fs' = undeletable fs"
  unfolding GenerateChunkFiles_def by (rule GenerateChunkFiles_loop_undeletable)

lemma CleanupChunkFiles_loop_files:
  "CleanupChunkFiles_loop fs i names errs = (fs', errs') \<Longrightarrow>
   files fs' p = (if p \<in> set names \<and> \<not> undeletable fs p then None else files fs p)"
proof (induction names arbitrary: fs i errs)
  case Nil
  then show ?case by simp
next
  case (Cons n names)
  obtain fs1 e where r: "os_Remove fs n = (fs1, e)" by (cases "os_Remove fs n")
  have d1: "undeletable fs1 = undeletable fs" using r by (rule os_Remove_undeletable)
  have f1: "files fs1 p = (if p = n \<and> \<not> undeletable fs p then None else files fs p)"
    using r by (rule os_Remove_files)
  obtain errs1 where "CleanupChunkFiles_loop fs1 (Suc i) names errs1 = (fs', errs')"
    using Cons.prems r by (cases e) (auto split: if_splits)
  then have "files fs' p = (if p \<in> set names \<and> \<not> undeletable fs1 p then None else files fs1 p)"
    by (rule Cons.IH)
  then show ?case using d1 f1 by auto
qed

lemma CleanupChunkFiles_files:
  "files (fst (CleanupChunkFiles fs names)) p =
     (if p \<in> set names \<and> \<not> undeletable fs p then None else files fs p)"
proof -
  obtain fs' errs' where c: "CleanupChunkFiles_loop fs 0 names [] = (fs', errs')"
    by (cases "CleanupChunkFiles_loop fs 0 names []")
  have "fst (CleanupChunkFiles fs names) = fs'"
    using c by (simp add: CleanupChunkFiles_def)
  then show ?thesis using CleanupChunkFiles_loop_files[OF c] by simp
qed

lemma openChunkFile_undeletable: "openChunkFile fs p off = (fs', e) \<Longrightarrow> undeletable fs' = undeletable fs"
  by (auto simp: openChunkFile_def split: if_splits dest: os_Create_undeletable)

lemma appendBytes_undeletable: "undeletable (ms_fs (appendBytes p n st)) = undeletable (ms_fs st)"
  by (simp add: appendBytes_def)

lemma markCompleted_fs: "ms_fs (markCompleted i st) = ms_fs st"
  by (simp add: markCompleted_def)

lemma downloadSingleChunk_undeletable:
  assumes "downloadSingleChunk ctxDone d i c p off att st = (st', out)"
  shows "undeletable (ms_fs st') = undeletable (ms_fs st)"
proof (cases att)
  case (NewRequestFails m)
  then show ?thesis using assms by (simp add: downloadSingleChunk_def)
next
  case (DoFails m)
  then show ?thesis using assms by (simp add: downloadSingleChunk_def)
next
  case (Responds status body)
  obtain fs1 e where o: "openChunkFile (ms_fs st) p off = (fs1, e)"
    by (cases "openChunkFile (ms_fs st) p off")
  have d1: "undeletable fs1 = undeletable (ms_fs st)" using o by (rule openChunkFile_undeletable)
  show ?thesis
    using assms Responds o d1
    by (auto simp: downloadSingleChunk_def appendBytes_undeletable markCompleted_fs
        split: if_splits option.splits loop_result.splits)
qed

lemma chunkWorker_undeletable:
  assumes "chunkWorker ctxDone d origin i c p st = (st', out)"
  shows "undeletable (ms_fs st') = undeletable (ms_fs st)"
proof -
  obtain off e where r: "detectChunkResumeOffset (ms_fs st) p (Size c) = (off, e)"
    by (cases "detectChunkResumeOffset (ms_fs st) p (Size c)")
  obtain st1 out1 where w: "downloadSingleChunk ctxDone d i c p off (origin i 0) st = (st1, out1)"
    by (cases "downloadSingleChunk ctxDone d i c p off (origin i 0) st")
  have d1: "undeletable (ms_fs st1) = undeletable (ms_fs st)" using w by (rule downloadSingleChunk_undeletable)
  show ?thesis
    using assms r w d1
    by (auto simp: chunkWorker_def markCompleted_fs
        split: if_splits option.splits worker_outcome.splits)
qed

lemma runWorkers_undeletable:
  "runWorkers ctxDone d origin i cs st = (st', outs) \<Longrightarrow> undeletable (ms_fs st') = undeletable (ms_fs st)"
proof (induction cs arbitrary: i st st' outs)
  case Nil
  then show ?case by simp
next
  case (Cons c cs)
  obtain chunk name where c: "c = (chunk, name)" by (cases c)
  obtain st1 out1 where w: "chunkWorker ctxDone d origin i chunk name st = (st1, out1)"
    by (cases "chunkWorker ctxDone d origin i chunk name st")
  obtain st2 outs2 where r: "runWorkers ctxDone d origin (Suc i) cs st1 = (st2, outs2)"
    by (cases "runWorkers ctxDone d origin (Suc i) cs st1")
  have "st' = st2" using Cons.prems c w r by simp
  moreover have "undeletable (ms_fs st2) = undeletable (ms_fs st1)" using r by (rule Cons.IH)
  moreover have "undeletable (ms_fs st1) = undeletable (ms_fs st)" using w by (rule chunkWorker_undeletable)
  ultimately show ?case by simp
qed

lemma downloadChunksConcurrently_undeletable:
  assumes "downloadChunksConcurrently ctxDone fa origin names d st = (st', pr)"
  shows "undeletable (ms_fs st') = undeletable (ms_fs st)"
proof -
  obtain st1 outs where r: "runWorkers ctxDone d origin 0 (zip (Chunks d) names) st = (st1, outs)"
    by (cases "runWorkers ctxDone d origin 0 (zip (Chunks d) names) st")
  have "undeletable (ms_fs st1) = undeletable (ms_fs st)" using r by (rule runWorkers_undeletable)
  then show ?thesis
    using assms r by (auto simp: downloadChunksConcurrently_def Let_def split: if_splits)
qed

subsection \<open>Running the example download\<close>

lemma loop_all_data:
  "0 < n \<Longrightarrow>
   downloadChunkWithProgress False False (replicate m (ReadEv n NoErr None)) (t + int m * n) t
     = LoopReturn (t + int m * n) None"
proof (induction m arbitrary: t)
  case 0
  then show ?case by simp
next
  case (Suc m)
  have "0 \<le> int m * n" using Suc.prems by simp
  moreover have "int (Suc m) * n = n + int m * n" by (simp add: algebra_simps)
  ultimately have lt: "t < t + int (Suc m) * n" using Suc.prems by linarith
  have eq: "t + int (Suc m) * n = (t + n) + int m * n" by (simp add: algebra_simps)
  have "downloadChunkWithProgress False False (replicate (Suc m) (ReadEv n NoErr None))
          (t + int (Suc m) * n) t
        = downloadChunkWithProgress False False (replicate m (ReadEv n NoErr None))
          (t + int (Suc m) * n) (t + n)"
    using lt Suc.prems by (simp del: of_nat_Suc)
  also have "\<dots> = LoopReturn (t + int (Suc m) * n) None"
    unfolding eq using Suc.prems by (rule Suc.IH)
  finally show ?case .
qed

lemma loop_paused:
  "downloadChunkWithProgress ctxDone True evs e t = LoopBlocked t" if "t < e"
proof (cases evs)
  case Nil
  then show ?thesis using that by simp
next
  case (Cons ev rest)
  then show ?thesis using that by (cases ev) simp
qed

lemma full_body_loop:
  "downloadChunkWithProgress False False full_body 10485760 0 = LoopReturn 10485760 None"
  using loop_all_data[of 32768 320 0] by (simp add: full_body_def)

lemma ex_sizes: "DivideChunks 20971520 2 = Inr [10485760, 10485760]"
  by (simp add: DivideChunks_planned plannedSizes_def upt_rec)

lemma ex_chunks: "initializeChunks 20971520 [10485760, 10485760] =
   Inr ([\<lparr>Index = 0, Start = 0, End = 10485759, Size = 10485760, IsCompleted = False\<rparr>,
         \<lparr>Index = 1, Start = 10485760, End = 20971519, Size = 10485760, IsCompleted = False\<rparr>],
        \<lparr>CM_Chunks = [\<lparr>Index = 0, Start = 0, End = 10485759, Size = 10485760, IsCompleted = False\<rparr>,
         \<lparr>Index = 1, Start = 10485760, End = 20971519, Size = 10485760, IsCompleted = False\<rparr>],
         CM_ChunkSize = 10485760, CM_TotalSize = 20971520, CM_CompletedBytes = 0\<rparr>)"
  by (simp add: initializeChunks_def wrap64_id Let_def)

lemmas ex_defs = executeMultiStreamDownload_def getOptimalThreadCount_def getThreadCount_def
  example_downloader_def example_names_def example_fs_def Let_def ex_sizes ex_chunks
  GenerateChunkFiles_def CreateFile_def os_Create_def downloadChunksConcurrently_def
  chunkWorker_def detectChunkResumeOffset_def FileExists_def downloadSingleChunk_def
  openChunkFile_def os_Open_def appendBytes_def markCompleted_def
  CleanupChunkFiles_def os_Remove_def os_IsNotExist_def handleDownloadError_def
  finalizeDownload_def MergeChunkFiles_def Cancel_def Pause_def

text \<open>
  When the download phase returns an error, \<open>executeMultiStreamDownload\<close> removes the
  partial files first and tests the cause afterwards.  So every ending with status
  \<open>stopped\<close>, and every ending with status \<open>failed\<close> on a worker's error, has
  removed every partial file that can be removed.
\<close>

lemma download_phase_error_removes_partial_files:
  assumes run: "executeMultiStreamDownload ctxDone firstArrived origin chunkFileNames d fs = Finished d' fs'"
    and cause: "Status d' = DOWNLOAD_STOPPED
                \<or> (Status d' = DOWNLOAD_FAILED \<and> (\<exists>i what e. Error d' = Some (ChunkErrorf i what e)))"
  shows "(\<forall>p \<in> set chunkFileNames. \<not> undeletable fs p \<longrightarrow> files fs' p = None)
         \<and> Status d' = (if ctxDone then DOWNLOAD_STOPPED else DOWNLOAD_FAILED)"
proof -
  obtain chunkSizes where dc: "DivideChunks (Filesize (ServerHeaders d)) (getOptimalThreadCount d) = Inr chunkSizes"
    using run by (auto simp: executeMultiStreamDownload_def Let_def split: sum.splits)
  obtain chunks manager where ic: "initializeChunks (Filesize (ServerHeaders d)) chunkSizes = Inr (chunks, manager)"
    using run dc by (auto simp: executeMultiStreamDownload_def Let_def split: sum.splits)
  obtain fs1 ge where gen: "GenerateChunkFiles fs chunkFileNames = (fs1, ge)"
    by (cases "GenerateChunkFiles fs chunkFileNames")
  have ge: "ge = None"
    using run cause dc ic gen
    by (cases ge) (auto simp: executeMultiStreamDownload_def Let_def handleDownloadError_def)
  have d1: "undeletable fs1 = undeletable fs" using gen by (rule GenerateChunkFiles_undeletable)
  define st0 where "st0 = \<lparr>ms_fs = fs1, totalCompletedBytes = 0, ms_Chunks = chunks\<rparr>"
  obtain st pr where ph: "downloadChunksConcurrently ctxDone firstArrived origin chunkFileNames
       (d\<lparr>Chunks := chunks\<rparr>) st0 = (st, pr)"
    by (cases "downloadChunksConcurrently ctxDone firstArrived origin chunkFileNames (d\<lparr>Chunks := chunks\<rparr>) st0")
  have d2: "undeletable (ms_fs st) = undeletable fs"
    using downloadChunksConcurrently_undeletable[OF ph] d1 by (simp add: st0_def)
  obtain err where pr: "pr = PhaseReturns (Some err)"
    using run cause dc ic gen ge ph
    by (cases pr; cases "MergeChunkFiles (ms_fs st) chunkFileNames (FullPath d)")
       (auto simp: executeMultiStreamDownload_def Let_def handleDownloadError_def finalizeDownload_def
          st0_def split: option.splits)
  have fs': "fs' = fst (CleanupChunkFiles (ms_fs st) chunkFileNames)"
    and st': "Status d' = (if ctxDone then DOWNLOAD_STOPPED else DOWNLOAD_FAILED)"
    using run dc ic gen ge ph pr
    by (auto simp: executeMultiStreamDownload_def Let_def handleDownloadError_def st0_def split: if_splits)
  show ?thesis
    using st' by (simp add: fs' CleanupChunkFiles_files d2)
qed


text \<open>
  A download started by \<open>DownloadMultiStream\<close> never ends with status \<open>stopped\<close>:
  the branch for a cancelled context is not reached.
\<close>

lemma DownloadMultiStream_never_stopped:
  assumes "DownloadMultiStream firstArrived origin pathSetup chunkFileNames d fs = Finished d' fs'"
  shows "Status d' = DOWNLOAD_FAILED \<or> Status d' = DOWNLOAD_COMPLETED"
proof (cases "initializeMultiStreamDownload pathSetup d")
  case (Pair d0 ie)
  show ?thesis
  proof (cases ie)
    case (Some err)
    then show ?thesis
      using assms Pair by (auto simp: DownloadMultiStream_def handleDownloadError_def)
  next
    case None
    then have run: "executeMultiStreamDownload False firstArrived origin chunkFileNames d0 fs
                    = Finished d' fs'"
      using assms Pair by (simp add: DownloadMultiStream_def)
    then show ?thesis
      by (auto simp: executeMultiStreamDownload_def Let_def handleDownloadError_def
          finalizeDownload_def
          split: sum.splits prod.splits option.splits phase_result.splits)
  qed
qed

text \<open>
  Claim C1.  The claim is that a multi-stream download that ends unsuccessfully
  deletes its partial files if and only if the cause is an error other than pause or
  cancel.  In the example both workers fetch their whole chunk and the output
  file cannot be created, so merging fails: the download ends with status \<open>failed\<close>
  on an error that is neither pause nor cancel, and both partial files stay on disk,
  10485760 bytes each.  The same download with a connection reset in the download
  phase ends with status \<open>failed\<close> as well, and there both partial files are deleted.
\<close>

theorem merge_failure_keeps_partial_files:
  "is_Finished (DownloadMultiStream 0 origin_ok (Inr ''/dl/big.bin'') example_names
                  example_downloader example_fs_locked_output)
   \<and> Status (res_downloader (DownloadMultiStream 0 origin_ok (Inr ''/dl/big.bin'') example_names
                  example_downloader example_fs_locked_output)) = DOWNLOAD_FAILED
   \<and> Error (res_downloader (DownloadMultiStream 0 origin_ok (Inr ''/dl/big.bin'') example_names
                  example_downloader example_fs_locked_output))
       = Some (Errorf ''failed to merge chunks'' (Errorf ''failed to create output file''
                 (Errorf ''failed to create file'' ErrPermission)))
   \<and> files (res_fs (DownloadMultiStream 0 origin_ok (Inr ''/dl/big.bin'') example_names
                  example_downloader example_fs_locked_output)) ''/dl/big (0).udtemp''
       = Some 10485760
   \<and> files (res_fs (DownloadMultiStream 0 origin_ok (Inr ''/dl/big.bin'') example_names
                  example_downloader example_fs_locked_output)) ''/dl/big (1).udtemp''
       = Some 10485760
   \<and> Status (res_downloader (DownloadMultiStream 0 origin_flaky (Inr ''/dl/big.bin'') example_names
                  example_downloader example_fs_locked_output)) = DOWNLOAD_FAILED
   \<and> files (res_fs (DownloadMultiStream 0 origin_flaky (Inr ''/dl/big.bin'') example_names
                  example_downloader example_fs_locked_output)) ''/dl/big (0).udtemp'' = None
   \<and> files (res_fs (DownloadMultiStream 0 origin_flaky (Inr ''/dl/big.bin'') example_names
                  example_downloader example_fs_locked_output)) ''/dl/big (1).udtemp'' = None"
  by (simp add: DownloadMultiStream_def initializeMultiStreamDownload_def ex_defs
      example_fs_locked_output_def origin_ok_def origin_flaky_def full_body_loop)

section \<open>No retry of a failed chunk\<close>

text \<open>
  The worker's result depends on the \<open>Downloader\<close> through the pause flag only, so
  not on \<open>maxRetries\<close>, and on the origin through the first request only.
\<close>

lemma downloadSingleChunk_reads_isPaused_only:
  "isPaused d = isPaused d' \<Longrightarrow>
   downloadSingleChunk ctxDone d i c p off att st = downloadSingleChunk ctxDone d' i c p off att st"
  by (cases att) (simp_all add: downloadSingleChunk_def)

lemma downloadSingleChunk_ignores_maxRetries:
  "downloadSingleChunk ctxDone (d\<lparr>Prefs := (Prefs d)\<lparr>maxRetries := m\<rparr>\<rparr>) i c p off att st
   = downloadSingleChunk ctxDone d i c p off att st"
  by (rule downloadSingleChunk_reads_isPaused_only) simp

lemma chunkWorker_transport_error:
  assumes "origin i 0 = DoFails m" and "files (ms_fs st) p = None" and "0 < Size c"
  shows "chunkWorker False d origin i c p st =
         (st, WorkerDone (Some (ChunkErrorf i ''download failed''
                (Errorf ''failed to make request'' (NetError m)))))"
  using assms
  by (simp add: chunkWorker_def detectChunkResumeOffset_def FileExists_def downloadSingleChunk_def)

lemma chunkWorker_first_request_only:
  assumes "origin i 0 = origin' i 0"
  shows "chunkWorker ctxDone d origin i c p st = chunkWorker ctxDone d origin' i c p st"
  unfolding chunkWorker_def assms by (rule refl)

text \<open>
  Claim C3.  The claim is that a chunk whose attempt fails with a transport error is
  attempted again, up to \<open>max_retries\<close> times, so that with \<open>max_retries = 3\<close> one
  transient failure in the middle of a chunk does not fail the job.  In the example
  \<open>maxRetries\<close> is 3 and the origin resets the connection once, in the first response
  for chunk 1; a second request would be answered in full.  The worker sends no second
  request: the read error is returned, and the job ends with status \<open>failed\<close>.
\<close>

theorem transient_failure_fails_job:
  "maxRetries (Prefs example_downloader) = 3
   \<and> origin_flaky 1 1 = Responds 206 full_body
   \<and> executeMultiStreamDownload False 0 origin_flaky example_names example_downloader example_fs
     = Finished (res_downloader (executeMultiStreamDownload False 0 origin_flaky example_names example_downloader example_fs))
         (res_fs (executeMultiStreamDownload False 0 origin_flaky example_names example_downloader example_fs))
   \<and> Status (res_downloader
        (executeMultiStreamDownload False 0 origin_flaky example_names example_downloader example_fs))
       = DOWNLOAD_FAILED
   \<and> Error (res_downloader
        (executeMultiStreamDownload False 0 origin_flaky example_names example_downloader example_fs))
       = Some (ChunkErrorf 1 ''download failed''
                 (Errorf ''failed to read chunk data'' (NetError ''connection reset by peer'')))"
  by (simp add: ex_defs origin_flaky_def full_body_loop)

text \<open>
  A response that ends cleanly before the expected byte count is not retried either:
  the loop leaves on \<open>io.EOF\<close> without an error, the chunk is marked complete, and the
  merged file is shorter than the 20971520 bytes of the origin.
\<close>

lemma premature_EOF_completes_short_file:
  "Status (res_downloader
      (executeMultiStreamDownload False 0 origin_short example_names example_downloader example_fs))
     = DOWNLOAD_COMPLETED
   \<and> files (res_fs
      (executeMultiStreamDownload False 0 origin_short example_names example_downloader example_fs))
      ''/dl/big.bin'' = Some 10518528"
  by (simp add: ex_defs origin_short_def full_body_loop)

section \<open>Cancel and the workers\<close>

text \<open>
  Claim C2.  The claim is that after \<open>Cancel()\<close> returns every worker has the
  cancellation signal, terminates, and writes no further bytes.  \<open>Cancel\<close> sets the
  status to \<open>stopped\<close> and clears the pause flag, and leaves the context as it was.
  A worker that waited on the pause gate therefore goes on: with a context that is not
  cancelled it writes all 10485760 bytes of its chunk.  A download on which \<open>Cancel\<close>
  was called still fetches and merges the whole file, and its status ends as
  \<open>completed\<close>.
\<close>

theorem Cancel_leaves_workers_running:
  "Status (Cancel example_downloader) = DOWNLOAD_STOPPED
   \<and> downloadChunkWithProgress False (isPaused (Pause example_downloader)) full_body 10485760 0
       = LoopBlocked 0
   \<and> downloadChunkWithProgress False (isPaused (Cancel (Pause example_downloader))) full_body 10485760 0
       = LoopReturn 10485760 None
   \<and> Status (res_downloader
        (executeMultiStreamDownload False 0 origin_ok example_names (Cancel example_downloader) example_fs))
       = DOWNLOAD_COMPLETED
   \<and> files (res_fs
        (executeMultiStreamDownload False 0 origin_ok example_names (Cancel example_downloader) example_fs))
        ''/dl/big.bin'' = Some 20971520"
  by (simp add: ex_defs origin_ok_def full_body_loop loop_paused)

end
